theory Spec2Isabelle
  imports Main "HOL-Library.Char_ord" "HOL-Library.List_Lexorder"
begin

section \<open>Python values\<close>

text \<open>
  The responses of the CMDB API and the keyword arguments of its calls are JSON-like
  Python values.  A dict inside a value is an association list (the first binding of a
  key is the one a lookup finds); integers are Python's unbounded ints.  Floats do not
  occur in the model.
\<close>

datatype pyval =
    PNone
  | PBool bool
  | PInt int
  | PStr string
  | PList "pyval list"
  | PDict "(string \<times> pyval) list"

text \<open>
  Every exception the code can raise is a value: \<open>Raised msg\<close> stands for an exception
  raised by a caller-supplied function (the API method or an extractor).
\<close>

datatype error = TypeError | KeyError | AttributeError | IndexError | Raised string

text \<open>Keyword arguments, and the \<open>params\<close> dict they are built from: string keys.\<close>

type_synonym kwargs = "string \<rightharpoonup> pyval"

text \<open>Python's truth value of an object, as \<open>not x\<close> and \<open>if x\<close> read it.\<close>

fun truthy :: "pyval \<Rightarrow> bool" where
  "truthy PNone = False"
| "truthy (PBool b) = b"
| "truthy (PInt n) = (n \<noteq> 0)"
| "truthy (PStr s) = (s \<noteq> [])"
| "truthy (PList xs) = (xs \<noteq> [])"
| "truthy (PDict d) = (d \<noteq> [])"

text \<open>\<open>x[k]\<close> for a string key: only a dict can be subscripted by a string.\<close>

fun subscript :: "pyval \<Rightarrow> string \<Rightarrow> error + pyval" where
  "subscript (PDict d) k = (case map_of d k of None \<Rightarrow> Inl KeyError | Some v \<Rightarrow> Inr v)"
| "subscript PNone k = Inl TypeError"
| "subscript (PBool b) k = Inl TypeError"
| "subscript (PInt n) k = Inl TypeError"
| "subscript (PStr s) k = Inl TypeError"
| "subscript (PList xs) k = Inl TypeError"

text \<open>\<open>x[0]\<close>.\<close>

fun index0 :: "pyval \<Rightarrow> error + pyval" where
  "index0 (PList []) = Inl IndexError"
| "index0 (PList (x # xs)) = Inr x"
| "index0 (PStr []) = Inl IndexError"
| "index0 (PStr (c # cs)) = Inr (PStr [c])"
| "index0 (PDict d) = Inl KeyError"
| "index0 PNone = Inl TypeError"
| "index0 (PBool b) = Inl TypeError"
| "index0 (PInt n) = Inl TypeError"

text \<open>
  The elements \<open>list.extend(x)\<close> appends: the items of a list, the characters of a
  string, the keys of a dict; anything else is not iterable.
\<close>

fun py_iter :: "pyval \<Rightarrow> error + pyval list" where
  "py_iter (PList xs) = Inr xs"
| "py_iter (PStr s) = Inr (map (\<lambda>c. PStr [c]) s)"
| "py_iter (PDict d) = Inr (map PStr (remdups (map fst d)))"
| "py_iter PNone = Inl TypeError"
| "py_iter (PBool b) = Inl TypeError"
| "py_iter (PInt n) = Inl TypeError"

text \<open>
  The right operand of \<open>start < count\<close>, whose left operand is an int: an int, or a bool
  (a subclass of int); any other value makes the comparison raise TypeError.
\<close>

fun as_number :: "pyval \<Rightarrow> error + int" where
  "as_number (PInt n) = Inr n"
| "as_number (PBool b) = Inr (if b then 1 else 0)"
| "as_number PNone = Inl TypeError"
| "as_number (PStr s) = Inl TypeError"
| "as_number (PList xs) = Inl TypeError"
| "as_number (PDict d) = Inl TypeError"

section \<open>batch_request\<close>

text \<open>
  The request method \<open>func\<close>: a callable, of which \<open>batch_request\<close> also reads the
  attributes \<open>path\<close> and \<open>__name__\<close> for its log lines.  An attribute the object does
  not have is \<open>None\<close> here, and reading it raises AttributeError.
\<close>

record adapter =
  call :: "kwargs \<Rightarrow> error + pyval"
  path :: "string option"
  dunder_name :: "string option"

text \<open>
  A line written by \<open>logger.error\<close>.  The two messages of \<open>batch_request\<close> are kept by
  their fields (the api, the request parameters, the raw result) instead of the
  formatted text.
\<close>

datatype log_entry =
    CountRequestError string pyval
  | RequestError string kwargs pyval

text \<open>What one call of \<open>batch_request\<close> does: the value it returns or the exception it
  raises, the lines it logs, and the calls of \<open>func\<close> in the order they were made.\<close>

record batch_run =
  ret :: "error + pyval list"
  logs :: "log_entry list"
  calls :: "kwargs list"

text \<open>The default extractors: \<open>x["data"]["info"]\<close> and \<open>x["data"]["count"]\<close>.\<close>

definition default_get_data :: "pyval \<Rightarrow> error + pyval" where
  "default_get_data x =
     (case subscript x ''data'' of Inl e \<Rightarrow> Inl e | Inr d \<Rightarrow> subscript d ''info'')"

definition default_get_count :: "pyval \<Rightarrow> error + pyval" where
  "default_get_count x =
     (case subscript x ''data'' of Inl e \<Rightarrow> Inl e | Inr d \<Rightarrow> subscript d ''count'')"

text \<open>
  Lines 56-57: \<open>request_params = {"page": {"limit": limit, "start": start}}\<close> followed by
  \<open>request_params.update(params)\<close>; the bindings of \<open>params\<close> win.
\<close>

definition request_params :: "int \<Rightarrow> int \<Rightarrow> kwargs \<Rightarrow> kwargs" where
  "request_params limit start params =
     [''page'' \<mapsto> PDict [(''limit'', PInt limit), (''start'', PInt start)]] ++ params"

text \<open>
  The \<open>while start < count\<close> loop of lines 55-60.  It appends to
  \<open>params_and_future_list\<close> the request parameters of one window and the future of the
  task submitted for it; a future is the position of its task in the pool, which is the
  number of tasks submitted before it.  With \<open>limit \<le> 0\<close> and \<open>count > 0\<close> the loop does
  not end: the result is \<open>None\<close>.
\<close>

partial_function (option) submit_loop ::
  "kwargs \<Rightarrow> int \<Rightarrow> int \<Rightarrow> int \<Rightarrow> (kwargs \<times> nat) list \<Rightarrow> (kwargs \<times> nat) list option"
where
  "submit_loop params limit count start acc =
     (if start < count
      then submit_loop params limit count (start + limit)
             (acc @ [(request_params limit start params, length acc)])
      else Some acc)"

text \<open>
  Modelled from the spec: the class \<open>ThreadPool\<close> (module \<open>gcloud.utils.thread\<close>) is not
  among the sources.  The spec's worker pool runs one invocation of the adapter per
  submitted window, in parallel, so the order in which the invocations are made and
  complete is not the submission order; \<open>join\<close> returns once every submitted task has
  completed.  The scheduler's choice is the list \<open>sched\<close> of task positions: the tasks it
  names run first, in that order and once each, and the tasks it leaves out run after
  them.  Every \<open>sched\<close> gives a permutation of the \<open>n\<close> submitted tasks, and every
  permutation is given by itself.
\<close>

definition completion_order :: "nat list \<Rightarrow> nat \<Rightarrow> nat list" where
  "completion_order sched n =
     remdups (filter (\<lambda>i. i < n) sched) @ filter (\<lambda>i. i \<notin> set sched) [0..<n]"

text \<open>
  Modelled from the spec: the pool after \<open>close\<close> and \<open>join\<close>.  Each task is resolved by
  the adapter's outcome on the task's request parameters (a value, or the exception the
  call raised); the list is in completion order and holds, for each task, its position,
  its request parameters and its outcome.
\<close>

definition pool_run ::
  "nat list \<Rightarrow> adapter \<Rightarrow> (kwargs \<times> nat) list \<Rightarrow> (nat \<times> kwargs \<times> (error + pyval)) list"
where
  "pool_run sched func tasks =
     map (\<lambda>i. (i, fst (tasks ! i), call func (fst (tasks ! i))))
       (completion_order sched (length tasks))"

text \<open>
  Modelled from the spec: \<open>future.get()\<close> gives the outcome of the task the future was
  returned for (and raises again the exception the task raised).  A task that never
  completed has no outcome, and \<open>get\<close> would wait for ever: \<open>None\<close>.
\<close>

definition future_get ::
  "(nat \<times> kwargs \<times> (error + pyval)) list \<Rightarrow> nat \<Rightarrow> (error + pyval) option"
where
  "future_get resolved fut = map_option snd (map_of resolved fut)"

text \<open>
  The \<open>for params_and_future in params_and_future_list\<close> loop of lines 66-77, with
  \<open>data\<close> as its accumulator.  It yields what \<open>batch_request\<close> returns or raises from
  inside the loop, or \<open>data\<close> after the last task, and the lines logged.
\<close>

fun merge_loop ::
  "adapter \<Rightarrow> (pyval \<Rightarrow> error + pyval) \<Rightarrow> (nat \<Rightarrow> (error + pyval) option) \<Rightarrow>
   (kwargs \<times> nat) list \<Rightarrow> pyval list \<Rightarrow> ((error + pyval list) \<times> log_entry list) option"
where
  "merge_loop func get_data get [] data = Some (Inr data, [])"
| "merge_loop func get_data get ((rp, fut) # rest) data =
     (case get fut of
        None \<Rightarrow> None
      | Some (Inl e) \<Rightarrow> Some (Inl e, [])
      | Some (Inr result) \<Rightarrow>
          if \<not> truthy result then
            (case dunder_name func of
               None \<Rightarrow> Some (Inl AttributeError, [])
             | Some api \<Rightarrow> Some (Inr [], [RequestError api rp result]))
          else
            (case get_data result of
               Inl e \<Rightarrow> Some (Inl e, [])
             | Inr items \<Rightarrow>
                 (case py_iter items of
                    Inl e \<Rightarrow> Some (Inl e, [])
                  | Inr xs \<Rightarrow> merge_loop func get_data get rest (data @ xs))))"

text \<open>The keyword arguments of the first request, \<open>func(page={"start": 0, "limit": 1}, **params)\<close>.\<close>

definition probe_kwargs :: "kwargs \<Rightarrow> kwargs" where
  "probe_kwargs params = params(''page'' \<mapsto> PDict [(''start'', PInt 0), (''limit'', PInt 1)])"

text \<open>
  \<open>batch_request(func, params, get_data, get_count, limit)\<close>, lines 29-79, with the
  pool's schedule as a further argument.  A key \<open>page\<close> in \<open>params\<close> makes the first call
  raise TypeError (the keyword argument \<open>page\<close> is given twice) before \<open>func\<close> runs.
  \<open>None\<close>: the call does not return.
\<close>

definition batch_request ::
  "nat list \<Rightarrow> adapter \<Rightarrow> kwargs \<Rightarrow> (pyval \<Rightarrow> error + pyval) \<Rightarrow> (pyval \<Rightarrow> error + pyval) \<Rightarrow>
   int \<Rightarrow> batch_run option"
where
  "batch_request sched func params get_data get_count limit =
     (if params ''page'' \<noteq> None then Some \<lparr>ret = Inl TypeError, logs = [], calls = []\<rparr>
      else
        (case call func (probe_kwargs params) of
           Inl e \<Rightarrow> Some \<lparr>ret = Inl e, logs = [], calls = [probe_kwargs params]\<rparr>
         | Inr result \<Rightarrow>
             (case subscript result ''result'' of
                Inl e \<Rightarrow> Some \<lparr>ret = Inl e, logs = [], calls = [probe_kwargs params]\<rparr>
              | Inr flag \<Rightarrow>
                  if \<not> truthy flag then
                    (case path func of
                       None \<Rightarrow>
                         Some \<lparr>ret = Inl AttributeError, logs = [],
                               calls = [probe_kwargs params]\<rparr>
                     | Some api \<Rightarrow>
                         Some \<lparr>ret = Inr [], logs = [CountRequestError api result],
                               calls = [probe_kwargs params]\<rparr>)
                  else
                    (case get_count result of
                       Inl e \<Rightarrow>
                         Some \<lparr>ret = Inl e, logs = [], calls = [probe_kwargs params]\<rparr>
                     | Inr c \<Rightarrow>
                         (case as_number c of
                            Inl e \<Rightarrow>
                              Some \<lparr>ret = Inl e, logs = [], calls = [probe_kwargs params]\<rparr>
                          | Inr count \<Rightarrow>
                              (case submit_loop params limit count 0 [] of
                                 None \<Rightarrow> None
                               | Some tasks \<Rightarrow>
                                   (let resolved = pool_run sched func tasks in
                                    case merge_loop func get_data (future_get resolved)
                                           tasks [] of
                                      None \<Rightarrow> None
                                    | Some (r, lg) \<Rightarrow>
                                        Some \<lparr>ret = r, logs = lg,
                                              calls = probe_kwargs params #
                                                map (\<lambda>t. fst (snd t)) resolved\<rparr>)))))))"

text \<open>
  The success flag of a response, as line 44 reads it: \<open>result["result"]\<close> is there and
  is true.
\<close>

definition succeeded :: "pyval \<Rightarrow> bool" where
  "succeeded r = (case subscript r ''result'' of Inl e \<Rightarrow> False | Inr flag \<Rightarrow> truthy flag)"

section \<open>The host queries\<close>

text \<open>
  The API client: \<open>client.cc.list_biz_hosts_topo\<close> and \<open>client.cc.list_biz_hosts\<close> are
  request methods handed to \<open>batch_request\<close>; \<open>client.cc.search_business\<close> is called
  with one dict.  \<open>get_client_by_user\<close> (\<open>settings.ESB_GET_CLIENT_BY_USER\<close>) is not
  among the sources and is an argument of the functions that call it.
\<close>

record client =
  list_biz_hosts_topo :: adapter
  list_biz_hosts :: adapter
  search_business :: "pyval \<Rightarrow> error + pyval"

text \<open>
  Lines 121-127 of \<open>get_business_host_topo\<close> and, word for word, lines 171-177 of
  \<open>get_business_host\<close>: the \<open>kwargs\<close> dict, with \<open>host_fields or []\<close> as its fields and
  the filter on \<open>bk_host_innerip\<close> added under \<open>if ip_list\<close>.
\<close>

definition host_kwargs :: "pyval \<Rightarrow> pyval \<Rightarrow> pyval \<Rightarrow> pyval \<Rightarrow> kwargs" where
  "host_kwargs bk_biz_id supplier_account host_fields ip_list =
     (let kwargs = [''bk_biz_id'' \<mapsto> bk_biz_id,
                    ''bk_supplier_account'' \<mapsto> supplier_account,
                    ''fields'' \<mapsto> (if truthy host_fields then host_fields else PList [])]
      in if truthy ip_list
         then kwargs(''host_property_filter'' \<mapsto>
                PDict [(''condition'', PStr ''AND''),
                       (''rules'', PList [PDict [(''field'', PStr ''bk_host_innerip''),
                                                 (''operator'', PStr ''in''),
                                                 (''value'', ip_list)]])])
         else kwargs)"

text \<open>\<open>get_business_host\<close>, lines 146-180.\<close>

definition get_business_host ::
  "(string \<Rightarrow> client) \<Rightarrow> nat list \<Rightarrow> string \<Rightarrow> pyval \<Rightarrow> pyval \<Rightarrow> pyval \<Rightarrow> pyval \<Rightarrow>
   batch_run option"
where
  "get_business_host get_client_by_user sched username bk_biz_id supplier_account
       host_fields ip_list =
     batch_request sched (list_biz_hosts (get_client_by_user username))
       (host_kwargs bk_biz_id supplier_account host_fields ip_list)
       default_get_data default_get_count 500"

text \<open>The inner loop of lines 136-139: one entry per module of a set.\<close>

fun module_items :: "pyval list \<Rightarrow> pyval list \<Rightarrow> error + pyval list" where
  "module_items [] modules = Inr modules"
| "module_items (parent_module # rest) modules =
     (case subscript parent_module ''bk_module_id'' of
        Inl e \<Rightarrow> Inl e
      | Inr mid \<Rightarrow>
          (case subscript parent_module ''bk_module_name'' of
             Inl e \<Rightarrow> Inl e
           | Inr mname \<Rightarrow>
               module_items rest
                 (modules @ [PDict [(''bk_module_id'', mid), (''bk_module_name'', mname)]])))"

text \<open>The loop of lines 134-139 over the sets of one host: the modules and the sets so far.\<close>

fun set_items ::
  "pyval list \<Rightarrow> pyval list \<Rightarrow> pyval list \<Rightarrow> error + (pyval list \<times> pyval list)"
where
  "set_items [] modules sets = Inr (modules, sets)"
| "set_items (parent_set # rest) modules sets =
     (case subscript parent_set ''bk_set_id'' of
        Inl e \<Rightarrow> Inl e
      | Inr sid \<Rightarrow>
          (case subscript parent_set ''bk_set_name'' of
             Inl e \<Rightarrow> Inl e
           | Inr sname \<Rightarrow>
               (case subscript parent_set ''module'' of
                  Inl e \<Rightarrow> Inl e
                | Inr ms \<Rightarrow>
                    (case py_iter ms of
                       Inl e \<Rightarrow> Inl e
                     | Inr ml \<Rightarrow>
                         (case module_items ml modules of
                            Inl e \<Rightarrow> Inl e
                          | Inr modules' \<Rightarrow>
                              set_items rest modules'
                                (sets @ [PDict [(''bk_set_id'', sid),
                                                (''bk_set_name'', sname)]]))))))"

text \<open>The loop of lines 132-141 over the records \<open>batch_request\<close> returned.\<close>

fun host_items :: "pyval list \<Rightarrow> pyval list \<Rightarrow> error + pyval list" where
  "host_items [] host_info_list = Inr host_info_list"
| "host_items (host_topo # rest) host_info_list =
     (case subscript host_topo ''host'' of
        Inl e \<Rightarrow> Inl e
      | Inr host \<Rightarrow>
          (case subscript host_topo ''topo'' of
             Inl e \<Rightarrow> Inl e
           | Inr topo \<Rightarrow>
               (case py_iter topo of
                  Inl e \<Rightarrow> Inl e
                | Inr parent_sets \<Rightarrow>
                    (case set_items parent_sets [] [] of
                       Inl e \<Rightarrow> Inl e
                     | Inr (modules, sets) \<Rightarrow>
                         host_items rest
                           (host_info_list @
                              [PDict [(''host'', host), (''module'', PList modules),
                                      (''set'', PList sets)]])))))"

text \<open>\<open>get_business_host_topo\<close>, lines 82-143.\<close>

definition get_business_host_topo ::
  "(string \<Rightarrow> client) \<Rightarrow> nat list \<Rightarrow> string \<Rightarrow> pyval \<Rightarrow> pyval \<Rightarrow> pyval \<Rightarrow> pyval \<Rightarrow>
   batch_run option"
where
  "get_business_host_topo get_client_by_user sched username bk_biz_id supplier_account
       host_fields ip_list =
     (case batch_request sched (list_biz_hosts_topo (get_client_by_user username))
             (host_kwargs bk_biz_id supplier_account host_fields ip_list)
             default_get_data default_get_count 500 of
        None \<Rightarrow> None
      | Some run \<Rightarrow>
          (case ret run of
             Inl e \<Rightarrow> Some run
           | Inr hosts \<Rightarrow> Some (run\<lparr>ret := host_items hosts []\<rparr>)))"

section \<open>get_notify_receivers\<close>

text \<open>
  A Python \<open>str\<close> is a \<open>string\<close> whose characters are the code points below 256.
  \<open>s.split(",")\<close> cuts at every comma, and gives one empty piece for the empty string.
\<close>

fun py_split :: "string \<Rightarrow> string list" where
  "py_split [] = [[]]"
| "py_split (c # cs) =
     (if c = CHR '','' then [] # py_split cs
      else (case py_split cs of [] \<Rightarrow> [[c]] | w # ws \<Rightarrow> (c # w) # ws))"

text \<open>
  \<open>str.isspace\<close> on one character, for the code points below 256: tab to carriage
  return, the four separators 28 to 31, the space, NEL (133) and the no-break space (160).
\<close>

definition is_space :: "char \<Rightarrow> bool" where
  "is_space c =
     (let n = (of_char c :: nat)
      in (9 \<le> n \<and> n \<le> 13) \<or> (28 \<le> n \<and> n \<le> 32) \<or> n = 133 \<or> n = 160)"

text \<open>\<open>s.strip()\<close>: the whitespace at both ends is dropped.\<close>

definition strip :: "string \<Rightarrow> string" where
  "strip s = rev (dropWhile is_space (rev (dropWhile is_space s)))"

text \<open>\<open>",".join(names)\<close>.\<close>

fun join_comma :: "string list \<Rightarrow> string" where
  "join_comma [] = []"
| "join_comma [x] = x"
| "join_comma (x # y # ys) = x @ '','' @ join_comma (y # ys)"

text \<open>
  The argument \<open>receiver_group\<close>: \<open>None\<close>, a string of comma-separated groups, or a list
  of groups; and its truth value.
\<close>

datatype receiver_group = GroupNone | GroupStr string | GroupList "string list"

fun group_truthy :: "receiver_group \<Rightarrow> bool" where
  "group_truthy GroupNone = False"
| "group_truthy (GroupStr s) = (s \<noteq> [])"
| "group_truthy (GroupList gs) = (gs \<noteq> [])"

text \<open>
  Lines 237-238: a string is split at its commas, a list is taken as it is.
\<close>

fun group_names :: "receiver_group \<Rightarrow> string list" where
  "group_names (GroupStr s) = py_split s"
| "group_names (GroupList gs) = gs"
| "group_names GroupNone = []"

text \<open>
  What the module imports and the sources do not hold: the table \<open>CC_V2_ROLE_MAP\<close>
  (\<open>gcloud.core.roles\<close>), the message builder \<open>handle_api_error\<close>
  (\<open>gcloud.utils.handlers\<close>), and the translated, formatted message of line 229, a
  function of the business id and the count.
\<close>

record env =
  CC_V2_ROLE_MAP :: "string \<rightharpoonup> string"
  handle_api_error :: "string \<Rightarrow> string \<Rightarrow> pyval \<Rightarrow> pyval \<Rightarrow> string"
  not_unique_message :: "int \<Rightarrow> pyval \<Rightarrow> string"

text \<open>\<open>biz_count != 1\<close>: an int or a bool is compared by its number, any other value differs from 1.\<close>

fun differs_from_one :: "pyval \<Rightarrow> bool" where
  "differs_from_one (PInt n) = (n \<noteq> 1)"
| "differs_from_one (PBool b) = (\<not> b)"
| "differs_from_one PNone = True"
| "differs_from_one (PStr s) = True"
| "differs_from_one (PList xs) = True"
| "differs_from_one (PDict d) = True"

text \<open>
  The loop of lines 240-241: for each group, the members of its role field in the
  business record, split at the commas, are appended to \<open>receivers\<close>.  A group that is
  not in the table or a field that is not in the record raises KeyError; a field that
  is not a string has no \<open>split\<close>.
\<close>

fun extend_groups :: "env \<Rightarrow> pyval \<Rightarrow> string list \<Rightarrow> string list \<Rightarrow> error + string list" where
  "extend_groups ev biz_data [] receivers = Inr receivers"
| "extend_groups ev biz_data (grp # rest) receivers =
     (case CC_V2_ROLE_MAP ev grp of
        None \<Rightarrow> Inl KeyError
      | Some role \<Rightarrow>
          (case subscript biz_data role of
             Inl e \<Rightarrow> Inl e
           | Inr (PStr members) \<Rightarrow>
               extend_groups ev biz_data rest (receivers @ py_split members)
           | Inr _ \<Rightarrow> Inl AttributeError))"

text \<open>
  What one call of \<open>get_notify_receivers\<close> does: the dict it returns or the exception it
  raises, the lines logged (the logger's name and the message), and the dicts
  \<open>search_business\<close> was called with.
\<close>

record notify_run =
  returned :: "error + pyval"
  logged :: "(string \<times> string) list"
  searched :: "pyval list"

text \<open>
  \<open>get_notify_receivers(client, biz_cc_id, supplier_account, receiver_group,
  more_receiver, logger)\<close>, lines 183-251.  \<open>biz_cc_id\<close> is an int, on which \<open>int()\<close> is
  the identity; a logger is known by its name, and the default is the logger
  \<open>celery\<close>.
\<close>

definition get_notify_receivers ::
  "env \<Rightarrow> client \<Rightarrow> int \<Rightarrow> pyval \<Rightarrow> receiver_group \<Rightarrow> string \<Rightarrow> string option \<Rightarrow> notify_run"
where
  "get_notify_receivers ev cl biz_cc_id supplier_account receiver_group more_receiver logger =
     (let more_receivers = map strip (py_split more_receiver) in
      if \<not> group_truthy receiver_group then
        \<lparr>returned = Inr (PDict [(''result'', PBool True), (''message'', PStr ''success''),
                                (''data'', PStr (join_comma more_receivers))]),
         logged = [], searched = []\<rparr>
      else
        (let lg = (case logger of None \<Rightarrow> ''celery'' | Some l \<Rightarrow> l);
             kwargs = PDict [(''bk_supplier_account'', supplier_account),
                             (''condition'', PDict [(''bk_biz_id'', PInt biz_cc_id)])]
         in case search_business cl kwargs of
              Inl e \<Rightarrow> \<lparr>returned = Inl e, logged = [], searched = [kwargs]\<rparr>
            | Inr cc_result \<Rightarrow>
                (case subscript cc_result ''result'' of
                   Inl e \<Rightarrow> \<lparr>returned = Inl e, logged = [], searched = [kwargs]\<rparr>
                 | Inr flag \<Rightarrow>
                     if \<not> truthy flag then
                       (let message = handle_api_error ev ''CMDB'' ''cc.search_business''
                                        kwargs cc_result
                        in \<lparr>returned = Inr (PDict [(''result'', PBool False),
                                                    (''message'', PStr message),
                                                    (''data'', PNone)]),
                            logged = [(lg, message)], searched = [kwargs]\<rparr>)
                     else
                       (case subscript cc_result ''data'' of
                          Inl e \<Rightarrow> \<lparr>returned = Inl e, logged = [], searched = [kwargs]\<rparr>
                        | Inr d \<Rightarrow>
                            (case subscript d ''count'' of
                               Inl e \<Rightarrow>
                                 \<lparr>returned = Inl e, logged = [], searched = [kwargs]\<rparr>
                             | Inr biz_count \<Rightarrow>
                                 if differs_from_one biz_count then
                                   \<lparr>returned =
                                      Inr (PDict [(''result'', PBool False),
                                                  (''message'',
                                                   PStr (not_unique_message ev biz_cc_id
                                                           biz_count)),
                                                  (''data'', PNone)]),
                                    logged = [(lg, handle_api_error ev ''CMDB''
                                                     ''cc.search_business'' kwargs cc_result)],
                                    searched = [kwargs]\<rparr>
                                 else
                                   (case subscript d ''info'' of
                                      Inl e \<Rightarrow>
                                        \<lparr>returned = Inl e, logged = [], searched = [kwargs]\<rparr>
                                    | Inr info \<Rightarrow>
                                        (case index0 info of
                                           Inl e \<Rightarrow>
                                             \<lparr>returned = Inl e, logged = [],
                                              searched = [kwargs]\<rparr>
                                         | Inr biz_data \<Rightarrow>
                                             (case extend_groups ev biz_data
                                                     (group_names receiver_group) [] of
                                                Inl e \<Rightarrow>
                                                  \<lparr>returned = Inl e, logged = [],
                                                   searched = [kwargs]\<rparr>
                                              | Inr receivers \<Rightarrow>
                                                  \<lparr>returned =
                                                     Inr (PDict
                                                       [(''result'', PBool True),
                                                        (''message'', PStr ''success''),
                                                        (''data'',
                                                         PStr (join_comma (sort (remdups
                                                           (if more_receiver \<noteq> []
                                                            then receivers @ more_receivers
                                                            else receivers)))))]),
                                                   logged = [], searched = [kwargs]\<rparr>))))))))"

section \<open>Inputs of the examples\<close>

text \<open>
  A request method that answers by the \<open>page\<close> it is asked for, from a table of pages,
  and raises for a request without \<open>page\<close> or for a page that is not in the table.
\<close>

definition paged_adapter :: "(pyval \<times> pyval) list \<Rightarrow> adapter" where
  "paged_adapter pages =
     \<lparr>call = (\<lambda>kw. case kw ''page'' of
                 None \<Rightarrow> Inl (Raised ''page is required'')
               | Some p \<Rightarrow>
                   (case map_of pages p of
                      None \<Rightarrow> Inl (Raised ''no such page'')
                    | Some r \<Rightarrow> Inr r)),
      path = Some ''/v2/cc/list_biz_hosts/'',
      dunder_name = Some ''list_biz_hosts''\<rparr>"

text \<open>A successful response with the given count and records.\<close>

definition page_response :: "pyval \<Rightarrow> pyval list \<Rightarrow> pyval" where
  "page_response count_value hosts =
     PDict [(''result'', PBool True),
            (''data'', PDict [(''count'', count_value), (''info'', PList hosts)])]"

text \<open>A backend of three hosts, read in pages of two.\<close>

definition three_hosts :: adapter where
  "three_hosts =
     paged_adapter
       [(PDict [(''start'', PInt 0), (''limit'', PInt 1)], page_response (PInt 3) [PStr ''h1'']),
        (PDict [(''limit'', PInt 2), (''start'', PInt 0)],
         page_response (PInt 3) [PStr ''h1'', PStr ''h2'']),
        (PDict [(''limit'', PInt 2), (''start'', PInt 2)], page_response (PInt 3) [PStr ''h3''])]"

text \<open>
  A backend of two hosts, read in pages of one, whose second page reports a failure:
  its success flag is false and it has no data.
\<close>

definition second_page_fails :: adapter where
  "second_page_fails =
     paged_adapter
       [(PDict [(''start'', PInt 0), (''limit'', PInt 1)], page_response (PInt 2) [PStr ''h1'']),
        (PDict [(''limit'', PInt 1), (''start'', PInt 0)], page_response (PInt 2) [PStr ''h1'']),
        (PDict [(''limit'', PInt 1), (''start'', PInt 1)],
         PDict [(''result'', PBool False), (''message'', PStr ''request failed''),
                (''data'', PNone)])]"

text \<open>
  An extractor that does not raise: it takes the records of a response whose data is a
  dict with an \<open>info\<close> entry, and gives no records for any other response.
\<close>

definition lenient_get_data :: "pyval \<Rightarrow> error + pyval" where
  "lenient_get_data x =
     (case subscript x ''data'' of
        Inr (PDict d) \<Rightarrow> (case map_of d ''info'' of None \<Rightarrow> Inr (PList []) | Some v \<Rightarrow> Inr v)
      | _ \<Rightarrow> Inr (PList []))"

text \<open>
  A backend of two hosts, read in pages of one, whose first page is \<open>None\<close> and whose
  second page makes the request method raise.
\<close>

definition masked_failure :: adapter where
  "masked_failure =
     paged_adapter
       [(PDict [(''start'', PInt 0), (''limit'', PInt 1)], page_response (PInt 2) [PStr ''h1'']),
        (PDict [(''limit'', PInt 1), (''start'', PInt 0)], PNone)]"

text \<open>
  A plain function as the request method: it has a \<open>__name__\<close> and no \<open>path\<close>, and it
  answers every request with a reported failure.
\<close>

definition denied_function :: adapter where
  "denied_function =
     \<lparr>call = (\<lambda>kw. Inr (PDict [(''result'', PBool False), (''message'', PStr ''denied'')])),
      path = None,
      dunder_name = Some ''list_hosts''\<rparr>"

text \<open>
  A client whose business search finds one business, with two role fields, and a role
  table for two groups.
\<close>

definition example_client :: client where
  "example_client =
     \<lparr>list_biz_hosts_topo = three_hosts,
      list_biz_hosts = three_hosts,
      search_business =
        (\<lambda>kw. Inr (PDict [(''result'', PBool True),
                          (''data'',
                           PDict [(''count'', PInt 1),
                                  (''info'',
                                   PList [PDict [(''bk_biz_maintainer'', PStr ''carol,alice''),
                                                 (''bk_biz_productor'', PStr ''bob,alice'')]])])]))\<rparr>"

definition example_env :: env where
  "example_env =
     \<lparr>CC_V2_ROLE_MAP = [''Maintainers'' \<mapsto> ''bk_biz_maintainer'',
                         ''ProductPm'' \<mapsto> ''bk_biz_productor''],
      handle_api_error = (\<lambda>system api_name params result. ''api error''),
      not_unique_message = (\<lambda>biz_cc_id biz_count. ''business not unique'')\<rparr>"

section \<open>The page plan\<close>

lemma submit_loop_plan:
  assumes "0 < limit"
  shows "submit_loop params limit count start acc =
     Some (acc @ map (\<lambda>k. (request_params limit (start + int k * limit) params, length acc + k))
                  [0..<nat ((count - start + limit - 1) div limit)])"
  using assms
proof (induction "nat (count - start)" arbitrary: start acc rule: less_induct)
  case less
  show ?case
  proof (cases "start < count")
    case False
    then have "(count - start + limit - 1) div limit \<le> 0"
      using less.prems pos_imp_zdiv_pos_iff[of limit "count - start + limit - 1"] by linarith
    then show ?thesis using False by (subst submit_loop.simps) simp
  next
    case True
    let ?n = "nat ((count - start + limit - 1) div limit)"
    let ?m = "nat ((count - (start + limit) + limit - 1) div limit)"
    have step: "(count - start + limit - 1) div limit = (count - (start + limit) + limit - 1) div limit + 1"
    proof -
      have "count - start + limit - 1 = (count - (start + limit) + limit - 1) + limit" by simp
      then show ?thesis using less.prems by (metis div_add_self2 less_irrefl)
    qed
    have pos: "0 \<le> (count - (start + limit) + limit - 1) div limit"
      using True less.prems by (simp add: pos_imp_zdiv_nonneg_iff)
    have n: "?n = Suc ?m" using step pos by simp
    have IH: "submit_loop params limit count (start + limit) (acc @ [(request_params limit start params, length acc)])
       = Some ((acc @ [(request_params limit start params, length acc)]) @
           map (\<lambda>k. (request_params limit (start + limit + int k * limit) params, length (acc @ [(request_params limit start params, length acc)]) + k)) [0..<?m])"
      by (rule less.hyps) (use True less.prems in auto)
    have "map (\<lambda>k. (request_params limit (start + int k * limit) params, length acc + k)) [0..<Suc ?m]
        = (request_params limit start params, length acc) #
           map (\<lambda>k. (request_params limit (start + limit + int k * limit) params, Suc (length acc) + k)) [0..<?m]"
      by (simp add: upt_conv_Cons map_Suc_upt[symmetric] algebra_simps del: upt_Suc)
    then show ?thesis
      using True IH n by (subst submit_loop.simps) simp
  qed
qed

lemma window_index:
  assumes "0 < (limit::int)"
  shows "(k < nat ((count + limit - 1) div limit)) = (int k * limit < count)"
proof -
  define q where "q = (count + limit - 1) div limit"
  define r where "r = (count + limit - 1) mod limit"
  have eq: "count + limit - 1 = q * limit + r"
    by (simp add: q_def r_def)
  have r: "0 \<le> r" "r < limit"
    using assms by (simp_all add: r_def)
  have "(int k < q) = (int k * limit < count)"
  proof
    assume "int k < q"
    then have "int k + 1 \<le> q" by simp
    then have "(int k + 1) * limit \<le> q * limit"
      using assms by (simp only: mult_right_mono less_imp_le)
    then have "int k * limit + limit \<le> q * limit"
      by (simp add: distrib_right)
    then show "int k * limit < count"
      using eq r by linarith
  next
    assume a: "int k * limit < count"
    show "int k < q"
    proof (rule ccontr)
      assume "\<not> int k < q"
      then have "q \<le> int k" by simp
      then have "q * limit \<le> int k * limit"
        using assms by (simp only: mult_right_mono less_imp_le)
      then show False
        using a eq r by linarith
    qed
  qed
  then show ?thesis
    by (simp add: q_def zless_nat_eq_int_zless)
qed

lemma window_unique:
  assumes "0 < (limit::int)"
    and "int j * limit \<le> x" "x < int j * limit + limit"
    and "int k * limit \<le> x" "x < int k * limit + limit"
  shows "j = k"
proof -
  have ord: "\<not> a < b" if "int a * limit \<le> x" "x < int b * limit + limit" "int b * limit \<le> x"
      "x < int a * limit + limit" for a b :: nat
  proof
    assume "a < b"
    then have "int a + 1 \<le> int b" by simp
    then have "(int a + 1) * limit \<le> int b * limit"
      using assms(1) by (simp only: mult_right_mono less_imp_le)
    then have "int a * limit + limit \<le> int b * limit"
      by (simp add: distrib_right)
    then show False using that by linarith
  qed
  have "\<not> j < k" using ord[of j k] assms by simp
  moreover have "\<not> k < j" using ord[of k j] assms by simp
  ultimately show ?thesis by simp
qed

lemma window_cover:
  assumes "0 < (limit::int)" "0 \<le> x" "x < count"
  shows "\<exists>!k. k < nat ((count + limit - 1) div limit) \<and> int k * limit \<le> x \<and> x < int k * limit + limit"
proof -
  let ?k = "nat (x div limit)"
  have nn: "0 \<le> x div limit"
    using assms by (simp add: pos_imp_zdiv_nonneg_iff)
  have eq: "x = (x div limit) * limit + x mod limit" by simp
  have r: "0 \<le> x mod limit" "x mod limit < limit" using assms by simp_all
  have lo: "int ?k * limit \<le> x" using nn eq r by (metis add.commute int_nat_eq le_add_same_cancel2) 
  have hi: "x < int ?k * limit + limit" using nn eq r by (metis add_strict_left_mono int_nat_eq)
  have "int ?k * limit < count" using lo assms by linarith
  then have "?k < nat ((count + limit - 1) div limit)"
    using window_index[OF assms(1)] by simp
  with lo hi show ?thesis
    using window_unique[OF assms(1)] by blast
qed

text \<open>
  Claim C2.  For a non-negative count and a positive limit, the loop of
  \<open>batch_request\<close> submits exactly the windows with offsets \<open>0, limit, 2 * limit, ...\<close>
  below \<open>count\<close>, in this order, each with \<open>limit\<close> as its size (the last one is not
  clamped); the offsets are the multiples of \<open>limit\<close> below \<open>count\<close>, every position of
  \<open>[0, count)\<close> lies in exactly one window, and a count of 0 gives no window.
\<close>

theorem page_plan:
  assumes "0 \<le> count" and "0 < limit"
  shows "submit_loop params limit count 0 [] =
           Some (map (\<lambda>k. (request_params limit (int k * limit) params, k))
                   [0..<nat ((count + limit - 1) div limit)])
       \<and> (params ''page'' = None \<longrightarrow>
            map_option (map (\<lambda>t. fst t ''page'')) (submit_loop params limit count 0 []) =
            Some (map (\<lambda>k. Some (PDict [(''limit'', PInt limit),
                                          (''start'', PInt (int k * limit))]))
                    [0..<nat ((count + limit - 1) div limit)]))
       \<and> (\<forall>k. (k < nat ((count + limit - 1) div limit)) = (int k * limit < count))
       \<and> (\<forall>x. 0 \<le> x \<and> x < count \<longrightarrow>
             (\<exists>!k. k < nat ((count + limit - 1) div limit) \<and>
                   int k * limit \<le> x \<and> x < int k * limit + limit))
       \<and> (count = 0 \<longrightarrow> submit_loop params limit count 0 [] = Some [])"
proof -
  let ?n = "nat ((count + limit - 1) div limit)"
  have plan: "submit_loop params limit count 0 [] =
      Some (map (\<lambda>k. (request_params limit (int k * limit) params, k)) [0..<?n])"
    using submit_loop_plan[OF assms(2), of params count 0 "[]"] by simp
  have pages: "map_option (map (\<lambda>t. fst t ''page'')) (submit_loop params limit count 0 []) =
      Some (map (\<lambda>k. Some (PDict [(''limit'', PInt limit), (''start'', PInt (int k * limit))]))
              [0..<?n])"
    if "params ''page'' = None"
    using that by (simp add: plan request_params_def map_add_def comp_def)
  have idx: "\<forall>k. (k < ?n) = (int k * limit < count)"
    using window_index[OF assms(2)] by simp
  have cover: "\<forall>x. 0 \<le> x \<and> x < count \<longrightarrow>
      (\<exists>!k. k < ?n \<and> int k * limit \<le> x \<and> x < int k * limit + limit)"
    using window_cover[OF assms(2)] by simp
  have zero: "submit_loop params limit count 0 [] = Some []" if "count = 0"
    using that by (subst submit_loop.simps) simp
  from plan pages idx cover zero show ?thesis by blast
qed

theorem page_plan_witness:
  "(0::int) \<le> 1200 \<and> (0::int) < 500 \<and>
   map_option (map (\<lambda>t. fst t ''page'')) (submit_loop Map.empty 500 1200 0 []) =
     Some [Some (PDict [(''limit'', PInt 500), (''start'', PInt 0)]),
           Some (PDict [(''limit'', PInt 500), (''start'', PInt 500)]),
           Some (PDict [(''limit'', PInt 500), (''start'', PInt 1000)])] \<and>
   submit_loop Map.empty 500 0 0 [] = Some []"
proof -
  have n: "nat (((1200::int) + 500 - 1) div 500) = 3" by simp
  have u: "[0..<3] = [0, Suc 0, 2]"
    by (simp add: upt_rec numeral_3_eq_3)
  show ?thesis
    using page_plan[of 1200 500 Map.empty] page_plan[of 0 500 Map.empty]
    by (simp add: n u request_params_def)
qed

section \<open>The pool and the merge\<close>

lemma set_completion_order: "set (completion_order sched n) = {0..<n}"
  by (auto simp: completion_order_def)

lemma future_get_pool_run:
  assumes "i < length tasks"
  shows "future_get (pool_run sched func tasks) i = Some (call func (fst (tasks ! i)))"
proof -
  have "map_of (map (\<lambda>i. (i, fst (tasks ! i), call func (fst (tasks ! i)))) xs) i =
      (if i \<in> set xs then Some (fst (tasks ! i), call func (fst (tasks ! i))) else None)" for xs
    by (induction xs) auto
  then show ?thesis
    using assms by (simp add: future_get_def pool_run_def set_completion_order)
qed

lemma pool_run_calls:
  "set (map (\<lambda>t. fst (snd t)) (pool_run sched func tasks)) = fst ` set tasks"
proof -
  have "map (\<lambda>i. fst (tasks ! i)) [0..<length tasks] = map fst tasks"
    by (rule nth_equalityI) simp_all
  then have "(\<lambda>i. fst (tasks ! i)) ` {0..<length tasks} = set (map fst tasks)"
    by (metis list.set_map set_upt)
  then show ?thesis
    by (simp add: pool_run_def set_completion_order image_image comp_def)
qed

lemma submit_loop_futures:
  assumes "submit_loop params limit count start acc = Some tasks"
  shows "map snd acc = [0..<length acc] \<longrightarrow> map snd tasks = [0..<length tasks]"
  by (rule submit_loop.raw_induct[where P = "\<lambda>params limit count start acc tasks.
        map snd acc = [0..<length acc] \<longrightarrow> map snd tasks = [0..<length tasks]", OF _ assms])
     (auto split: if_splits)

lemma merge_loop_cong:
  assumes "\<forall>t\<in>set tasks. get (snd t) = get' (snd t)"
  shows "merge_loop func get_data get tasks data = merge_loop func get_data get' tasks data"
  using assms
proof (induction tasks arbitrary: data)
  case Nil
  show ?case by simp
next
  case (Cons t tasks)
  obtain rp fut where t: "t = (rp, fut)" by (cases t)
  have head: "get fut = get' fut" using Cons.prems t by simp
  have rest: "\<And>d. merge_loop func get_data get tasks d = merge_loop func get_data get' tasks d"
    using Cons by simp
  show ?case
    by (simp add: t head rest split: option.splits sum.splits)
qed

lemma merge_resolved:
  assumes "submit_loop params limit count 0 [] = Some tasks"
  shows "merge_loop func get_data (future_get (pool_run sched func tasks)) tasks [] =
         merge_loop func get_data (\<lambda>i. Some (call func (fst (tasks ! i)))) tasks []"
proof (rule merge_loop_cong, rule ballI)
  fix t assume t: "t \<in> set tasks"
  have "map snd tasks = [0..<length tasks]"
    using submit_loop_futures[OF assms] by simp
  moreover have "snd t \<in> set (map snd tasks)" using t by simp
  ultimately have "snd t < length tasks" by simp
  then show "future_get (pool_run sched func tasks) (snd t) = Some (call func (fst (tasks ! snd t)))"
    by (simp add: future_get_pool_run)
qed

text \<open>
  Claim C6.  \<open>batch_request\<close> is deterministic: with the same arguments and the adapter a
  function of its request parameters, any two orders in which the pool completes the
  page fetches give the same returned value (or the same exception, or no return in
  both), and the same log lines; the merge reads the futures in submission order.
\<close>

theorem schedule_independent:
  "map_option ret (batch_request s1 func params get_data get_count limit) =
     map_option ret (batch_request s2 func params get_data get_count limit) \<and>
   map_option logs (batch_request s1 func params get_data get_count limit) =
     map_option logs (batch_request s2 func params get_data get_count limit)"
proof -
  have core: "merge_loop func get_data (future_get (pool_run s func tasks)) tasks [] =
         merge_loop func get_data (\<lambda>i. Some (call func (fst (tasks ! i)))) tasks []"
    if "submit_loop params limit count 0 [] = Some tasks" for s count tasks
    using that by (rule merge_resolved)
  show ?thesis
    by (auto simp: batch_request_def Let_def core split: sum.splits option.splits)
qed

section \<open>The run after a successful probe\<close>

lemma distinct_completion_order: "distinct (completion_order sched n)"
  by (auto simp: completion_order_def)

lemma merge_loop_returns:
  assumes "\<forall>t\<in>set tasks. get (snd t) \<noteq> None"
  shows "\<exists>r lg. merge_loop func get_data get tasks data = Some (r, lg)"
  using assms
proof (induction tasks arbitrary: data)
  case Nil
  show ?case by simp
next
  case (Cons t tasks)
  obtain rp fut where t: "t = (rp, fut)" by (cases t)
  have rest: "\<And>d. \<exists>r lg. merge_loop func get_data get tasks d = Some (r, lg)"
    using Cons by simp
  from Cons.prems t obtain out where out: "get fut = Some out" by auto
  show ?case
    using out rest by (auto simp: t split: sum.splits option.splits)
qed

lemma merge_loop_planned:
  "merge_loop func get_data
     (\<lambda>i. Some (call func (fst (map (\<lambda>k. (rp k, k)) [0..<n] ! i))))
     (map (\<lambda>k. (rp k, k)) [0..<n]) data =
   merge_loop func get_data (\<lambda>i. Some (call func (rp i))) (map (\<lambda>k. (rp k, k)) [0..<n]) data"
  by (rule merge_loop_cong) auto

lemma pool_run_planned:
  "map (\<lambda>t. fst (snd t)) (pool_run sched func (map (\<lambda>k. (rp k, k)) [0..<n])) =
   map rp (completion_order sched n)"
proof -
  have "\<forall>i\<in>set (completion_order sched n). i < n"
    by (simp add: set_completion_order)
  then show ?thesis
    by (simp add: pool_run_def comp_def)
qed

lemma batch_request_after_probe:
  assumes page: "params ''page'' = None"
    and limit: "0 < limit"
    and probe: "call func (probe_kwargs params) = Inr result"
    and flag: "subscript result ''result'' = Inr flag" "truthy flag"
    and cnt: "get_count result = Inr c" "as_number c = Inr count"
  shows "\<exists>r lg.
     merge_loop func get_data
       (\<lambda>i. Some (call func (request_params limit (int i * limit) params)))
       (map (\<lambda>k. (request_params limit (int k * limit) params, k))
          [0..<nat ((count + limit - 1) div limit)]) [] = Some (r, lg) \<and>
     batch_request sched func params get_data get_count limit =
       Some \<lparr>ret = r, logs = lg,
             calls = probe_kwargs params #
               map (\<lambda>k. request_params limit (int k * limit) params)
                 (completion_order sched (nat ((count + limit - 1) div limit)))\<rparr>"
proof -
  let ?n = "nat ((count + limit - 1) div limit)"
  let ?rp = "\<lambda>k. request_params limit (int k * limit) params"
  let ?tasks = "map (\<lambda>k. (?rp k, k)) [0..<?n]"
  have plan: "submit_loop params limit count 0 [] = Some ?tasks"
    using submit_loop_plan[OF limit, of params count 0 "[]"] by simp
  obtain r lg where m: "merge_loop func get_data (\<lambda>i. Some (call func (?rp i))) ?tasks [] = Some (r, lg)"
    using merge_loop_returns[of ?tasks "\<lambda>i. Some (call func (?rp i))" func get_data "[]"] by auto
  have m': "merge_loop func get_data (\<lambda>i. Some (call func (fst (?tasks ! i)))) ?tasks [] = Some (r, lg)"
    using m by (simp only: merge_loop_planned)
  have "batch_request sched func params get_data get_count limit =
       Some \<lparr>ret = r, logs = lg, calls = probe_kwargs params # map ?rp (completion_order sched ?n)\<rparr>"
    using page probe flag cnt plan m'
    by (simp add: batch_request_def Let_def merge_resolved[OF plan] pool_run_planned)
  with m show ?thesis by blast
qed

section \<open>The probe\<close>

text \<open>
  Claim C3 as stated does not hold for every request method: the log line of line 45
  reads \<open>func.path\<close>, so with a request method that has no such attribute a failed
  probe raises AttributeError, and neither a log line nor the empty list follows.
\<close>

theorem probe_failure_without_path:
  "batch_request [] denied_function Map.empty default_get_data default_get_count 500 =
     Some \<lparr>ret = Inl AttributeError, logs = [], calls = [probe_kwargs Map.empty]\<rparr>"
  by (simp add: batch_request_def denied_function_def)

text \<open>
  Claim C3, amended.  When the success flag of the probe response is false (\<open>params\<close>
  has no key \<open>page\<close>, so that the probe is made), the request method has been called
  once, with the window \<open>{start: 0, limit: 1}\<close> merged into \<open>params\<close>, and no page fetch
  follows.  With a request method that has a \<open>path\<close>, \<open>batch_request\<close> logs the error
  with that path and the raw response and returns the empty list; without it, reading
  the attribute raises AttributeError and nothing is logged.
\<close>

theorem probe_failure:
  assumes "params ''page'' = None"
    and "call func (probe_kwargs params) = Inr result"
    and "subscript result ''result'' = Inr flag"
    and "\<not> truthy flag"
  shows "batch_request sched func params get_data get_count limit =
           Some \<lparr>ret = (case path func of None \<Rightarrow> Inl AttributeError | Some api \<Rightarrow> Inr []),
                 logs = (case path func of None \<Rightarrow> []
                         | Some api \<Rightarrow> [CountRequestError api result]),
                 calls = [probe_kwargs params]\<rparr>
       \<and> probe_kwargs params ''page'' = Some (PDict [(''start'', PInt 0), (''limit'', PInt 1)])
       \<and> (\<forall>key. key \<noteq> ''page'' \<longrightarrow> probe_kwargs params key = params key)"
  using assms by (simp add: batch_request_def probe_kwargs_def split: option.splits)

theorem probe_failure_witness:
  "(Map.empty :: kwargs) ''page'' = None \<and>
   call \<lparr>call = (\<lambda>kw. Inr (PDict [(''result'', PBool False), (''message'', PStr ''denied'')])),
         path = Some ''/v2/cc/list_biz_hosts/'', dunder_name = None\<rparr> (probe_kwargs Map.empty)
     = Inr (PDict [(''result'', PBool False), (''message'', PStr ''denied'')]) \<and>
   subscript (PDict [(''result'', PBool False), (''message'', PStr ''denied'')]) ''result''
     = Inr (PBool False) \<and>
   \<not> truthy (PBool False) \<and>
   batch_request [] \<lparr>call = (\<lambda>kw. Inr (PDict [(''result'', PBool False), (''message'', PStr ''denied'')])),
         path = Some ''/v2/cc/list_biz_hosts/'', dunder_name = None\<rparr> Map.empty
       default_get_data default_get_count 500 =
     Some \<lparr>ret = Inr [],
           logs = [CountRequestError ''/v2/cc/list_biz_hosts/''
                     (PDict [(''result'', PBool False), (''message'', PStr ''denied'')])],
           calls = [probe_kwargs Map.empty]\<rparr> \<and>
   call denied_function (probe_kwargs Map.empty)
     = Inr (PDict [(''result'', PBool False), (''message'', PStr ''denied'')]) \<and>
   batch_request [2, 0] denied_function Map.empty default_get_data default_get_count 500 =
     Some \<lparr>ret = Inl AttributeError, logs = [], calls = [probe_kwargs Map.empty]\<rparr>"
  using probe_failure[of Map.empty
      "\<lparr>call = (\<lambda>kw. Inr (PDict [(''result'', PBool False), (''message'', PStr ''denied'')])),
         path = Some ''/v2/cc/list_biz_hosts/'', dunder_name = None\<rparr>"
      "PDict [(''result'', PBool False), (''message'', PStr ''denied'')]" "PBool False"
      "[]" default_get_data default_get_count 500]
    probe_failure[of Map.empty denied_function
      "PDict [(''result'', PBool False), (''message'', PStr ''denied'')]" "PBool False"
      "[2, 0]" default_get_data default_get_count 500]
  by (simp add: denied_function_def)

section \<open>The receivers of a notification\<close>

text \<open>
  Claim C9.  With a falsy \<open>receiver_group\<close> (\<open>None\<close>, the empty string or the empty
  list) \<open>get_notify_receivers\<close> calls no API and returns \<open>result\<close> true, the message
  \<open>success\<close> and, as data, the names of \<open>more_receiver\<close> split at the commas, stripped
  and joined again: they are neither sorted nor freed of duplicates.
\<close>

theorem falsy_group:
  assumes "receiver_group = GroupNone \<or> receiver_group = GroupStr [] \<or>
           receiver_group = GroupList []"
  shows "get_notify_receivers ev cl biz_cc_id supplier_account receiver_group more_receiver
           logger =
     \<lparr>returned = Inr (PDict [(''result'', PBool True), (''message'', PStr ''success''),
                             (''data'', PStr (join_comma (map strip (py_split more_receiver))))]),
      logged = [], searched = []\<rparr>"
  using assms by (auto simp: get_notify_receivers_def)

theorem falsy_group_witness:
  "get_notify_receivers
     \<lparr>CC_V2_ROLE_MAP = Map.empty, handle_api_error = (\<lambda>s a k r. ''error''),
      not_unique_message = (\<lambda>i c. ''not unique'')\<rparr>
     \<lparr>list_biz_hosts_topo = \<lparr>call = (\<lambda>kw. Inl (Raised ''offline'')), path = None,
                              dunder_name = None\<rparr>,
      list_biz_hosts = \<lparr>call = (\<lambda>kw. Inl (Raised ''offline'')), path = None,
                         dunder_name = None\<rparr>,
      search_business = (\<lambda>kw. Inl (Raised ''offline''))\<rparr>
     2 (PInt 0) (GroupStr []) ''bob, alice ,bob'' None =
   \<lparr>returned = Inr (PDict [(''result'', PBool True), (''message'', PStr ''success''),
                           (''data'', PStr ''bob,alice,bob'')]),
    logged = [], searched = []\<rparr>"
proof -
  have names: "join_comma (map strip (py_split ''bob, alice ,bob'')) = ''bob,alice,bob''"
    by (simp add: strip_def is_space_def)
  show ?thesis
    using falsy_group[of "GroupStr []" _ _ 2 "PInt 0" "''bob, alice ,bob'' " None]
    by (simp only: names) simp
qed

section \<open>The merge of the windows\<close>

lemma succeeded_truthy: "succeeded r \<Longrightarrow> truthy r"
  by (cases r) (auto simp: succeeded_def split: option.splits)

lemma merge_loop_all_ok:
  assumes "list_all2 (\<lambda>t xs. \<exists>r items. get (snd t) = Some (Inr r) \<and> truthy r \<and>
              get_data r = Inr items \<and> py_iter items = Inr xs) tasks rs"
  shows "merge_loop func get_data get tasks data = Some (Inr (data @ concat rs), [])"
  using assms
proof (induction tasks rs arbitrary: data rule: list_all2_induct)
  case Nil
  show ?case by simp
next
  case (Cons t tasks xs rs)
  obtain rp fut where t: "t = (rp, fut)" by (cases t)
  from Cons.hyps(1) t obtain r items where
    "get fut = Some (Inr r)" "truthy r" "get_data r = Inr items" "py_iter items = Inr xs"
    by auto
  then show ?case
    using Cons.IH[of "data @ xs"] by (simp add: t)
qed

text \<open>
  Claim C4.  When the probe succeeds and the response of every page window succeeds,
  \<open>batch_request\<close> returns the records \<open>get_data\<close> extracts from the responses,
  concatenated in the order of the windows (the order of submission), whatever the
  order in which the pool completed them; the length of the result is the sum of the
  numbers of records of the windows, and nothing is logged.
\<close>

theorem all_windows_succeed:
  fixes resp :: "nat \<Rightarrow> pyval" and recs :: "nat \<Rightarrow> pyval list"
  assumes page: "params ''page'' = None"
    and limit: "0 < limit"
    and probe: "call func (probe_kwargs params) = Inr result" "succeeded result"
    and cnt: "get_count result = Inr c" "as_number c = Inr count"
    and n: "n = nat ((count + limit - 1) div limit)"
    and windows: "\<forall>k<n. call func (request_params limit (int k * limit) params) = Inr (resp k) \<and>
            succeeded (resp k) \<and>
            (\<exists>items. get_data (resp k) = Inr items \<and> py_iter items = Inr (recs k))"
  shows "\<exists>run. batch_request sched func params get_data get_count limit = Some run \<and>
           ret run = Inr (concat (map recs [0..<n])) \<and> logs run = [] \<and>
           length (concat (map recs [0..<n])) = (\<Sum>k<n. length (recs k))"
proof -
  let ?tasks = "map (\<lambda>k. (request_params limit (int k * limit) params, k)) [0..<n]"
  have plan: "submit_loop params limit count 0 [] = Some ?tasks"
    using submit_loop_plan[OF limit, of params count 0 "[]"] n by simp
  have "list_all2 (\<lambda>t xs. \<exists>r items. (\<lambda>i. Some (call func (fst (?tasks ! i)))) (snd t) = Some (Inr r) \<and>
          truthy r \<and> get_data r = Inr items \<and> py_iter items = Inr xs) ?tasks (map recs [0..<n])"
    using windows by (auto simp: list_all2_map1 list_all2_map2 list_all2_same succeeded_truthy)
  then have merge: "merge_loop func get_data (\<lambda>i. Some (call func (fst (?tasks ! i)))) ?tasks [] =
      Some (Inr (concat (map recs [0..<n])), [])"
    using merge_loop_all_ok[where data = "[]"] by fastforce
  obtain flag where flag: "subscript result ''result'' = Inr flag" "truthy flag"
    using probe(2) by (auto simp: succeeded_def split: sum.splits)
  have len: "length (concat (map recs [0..<n])) = (\<Sum>k<n. length (recs k))"
    by (simp add: length_concat comp_def sum_list_sum_nth atLeast0LessThan)
  show ?thesis
    using page probe(1) flag cnt plan merge len
    by (simp add: batch_request_def Let_def merge_resolved[OF plan])
qed

theorem all_windows_succeed_witness:
  "\<exists>run. batch_request [1, 0] three_hosts Map.empty default_get_data default_get_count 2 = Some run \<and>
      ret run = Inr [PStr ''h1'', PStr ''h2'', PStr ''h3''] \<and> logs run = []"
proof -
  define resp where "resp = (\<lambda>k::nat. if k = 0 then page_response (PInt 3) [PStr ''h1'', PStr ''h2'']
                  else page_response (PInt 3) [PStr ''h3''])"
  define recs where "recs = (\<lambda>k::nat. if k = 0 then [PStr ''h1'', PStr ''h2''] else [PStr ''h3''])"
  have h1: "(Map.empty :: kwargs) ''page'' = None" by simp
  have h2: "(0::int) < 2" by simp
  have h3: "call three_hosts (probe_kwargs Map.empty) = Inr (page_response (PInt 3) [PStr ''h1''])"
    by (simp add: three_hosts_def paged_adapter_def probe_kwargs_def)
  have h4: "succeeded (page_response (PInt 3) [PStr ''h1''])"
    by (simp add: succeeded_def page_response_def)
  have h5: "default_get_count (page_response (PInt 3) [PStr ''h1'']) = Inr (PInt 3)"
    by (simp add: default_get_count_def page_response_def)
  have h6: "as_number (PInt 3) = Inr 3" by simp
  have h7: "(2::nat) = nat (((3::int) + 2 - 1) div 2)" by simp
  have h8: "\<forall>k<2. call three_hosts (request_params 2 (int k * 2) Map.empty) = Inr (resp k) \<and>
            succeeded (resp k) \<and>
            (\<exists>items. default_get_data (resp k) = Inr items \<and> py_iter items = Inr (recs k))"
    by (simp add: resp_def recs_def less_2_cases_iff three_hosts_def paged_adapter_def request_params_def
          succeeded_def page_response_def default_get_data_def)
  have u: "[0..<2] = [0, Suc 0]" by (simp add: upt_rec)
  show ?thesis
    using all_windows_succeed[where resp = resp and recs = recs and sched = "[1, 0]"
          and get_count = default_get_count and get_data = default_get_data
          and func = three_hosts and params = Map.empty and limit = 2
          and result = "page_response (PInt 3) [PStr ''h1'']" and c = "PInt 3" and count = 3
          and n = 2, OF h1 h2 h3 h4 h5 h6 h7 h8]
    by (auto simp: u recs_def)
qed

text \<open>
  Claim C1, at an input where the code does not do what the claim says.  The second of
  two windows reports a failure (its success flag is false).  The merge loop tests the
  truth value of the whole response, not its flag, so the failure is not seen: with the
  default extractor \<open>batch_request\<close> raises TypeError instead of returning the empty
  list, and with an extractor that tolerates a response without data it returns the
  record of the first window; nothing is logged in either case.
\<close>

theorem failed_page_not_detected:
  "map_option ret (batch_request [] second_page_fails Map.empty default_get_data
                     default_get_count 1) = Some (Inl TypeError) \<and>
   map_option logs (batch_request [] second_page_fails Map.empty default_get_data
                      default_get_count 1) = Some [] \<and>
   map_option ret (batch_request [] second_page_fails Map.empty lenient_get_data
                     default_get_count 1) = Some (Inr [PStr ''h1'']) \<and>
   map_option logs (batch_request [] second_page_fails Map.empty lenient_get_data
                      default_get_count 1) = Some []"
proof -
  have plan: "submit_loop Map.empty 1 2 0 [] =
      Some [(request_params 1 0 Map.empty, 0), (request_params 1 1 Map.empty, Suc 0)]"
    by (simp add: submit_loop_plan upt_rec)
  show ?thesis
    by (simp add: batch_request_def paged_adapter_def probe_kwargs_def second_page_fails_def
        page_response_def default_get_count_def default_get_data_def lenient_get_data_def
        plan pool_run_def completion_order_def future_get_def request_params_def upt_rec)
qed

section \<open>Failures and exceptions\<close>

lemma merge_loop_prefix:
  assumes "\<forall>i\<in>set ks. \<exists>r items xs. get i = Some (Inr r) \<and> truthy r \<and>
             get_data r = Inr items \<and> py_iter items = Inr xs"
  shows "\<exists>ys. merge_loop func get_data get (map (\<lambda>k. (rp k, k)) ks @ rest) data =
              merge_loop func get_data get rest (data @ ys)"
  using assms
proof (induction ks arbitrary: data)
  case Nil
  have "merge_loop func get_data get rest data = merge_loop func get_data get rest (data @ [])"
    by simp
  then show ?case by (simp del: append_Nil2) blast
next
  case (Cons k ks)
  from Cons.prems obtain r items xs where
    k: "get k = Some (Inr r)" "truthy r" "get_data r = Inr items" "py_iter items = Inr xs"
    by auto
  have "\<forall>i\<in>set ks. \<exists>r items xs. get i = Some (Inr r) \<and> truthy r \<and>
             get_data r = Inr items \<and> py_iter items = Inr xs"
    using Cons.prems by simp
  from Cons.IH[OF this, of "data @ xs"] obtain ys where
    "merge_loop func get_data get (map (\<lambda>k. (rp k, k)) ks @ rest) (data @ xs) =
     merge_loop func get_data get rest ((data @ xs) @ ys)"
    by blast
  then have "merge_loop func get_data get (map (\<lambda>k. (rp k, k)) (k # ks) @ rest) data =
     merge_loop func get_data get rest (data @ (xs @ ys))"
    using k by simp
  then show ?case by blast
qed

lemma merge_loop_decided:
  assumes k: "k < n"
    and ok: "\<forall>i<k. \<exists>r items xs. call func (rp i) = Inr r \<and> truthy r \<and>
             get_data r = Inr items \<and> py_iter items = Inr xs"
  shows "\<exists>ys. merge_loop func get_data (\<lambda>i. Some (call func (rp i)))
                (map (\<lambda>k. (rp k, k)) [0..<n]) [] =
              merge_loop func get_data (\<lambda>i. Some (call func (rp i)))
                ((rp k, k) # map (\<lambda>k. (rp k, k)) [Suc k..<n]) ys"
proof -
  have split: "[0..<n] = [0..<k] @ k # [Suc k..<n]"
    using k by (metis le_add1 le_add_same_cancel1 less_imp_add_positive upt_add_eq_append upt_conv_Cons)
  have pre: "\<forall>i\<in>set [0..<k]. \<exists>r items xs. (\<lambda>i. Some (call func (rp i))) i = Some (Inr r) \<and>
             truthy r \<and> get_data r = Inr items \<and> py_iter items = Inr xs"
    using ok by simp
  from merge_loop_prefix[OF pre, of func rp "(rp k, k) # map (\<lambda>k. (rp k, k)) [Suc k..<n]" "[]"]
  show ?thesis by (simp add: split)
qed

text \<open>
  Claim C5 as the spec states it does not hold: \<open>batch_request\<close> catches no exception.
  An exception raised by the request method, here at the probe, and an exception raised
  by an extractor both reach the caller.
\<close>

theorem exceptions_propagate:
  "map_option ret (batch_request [] (paged_adapter []) Map.empty default_get_data default_get_count 500)
     = Some (Inl (Raised ''no such page'')) \<and>
   map_option ret (batch_request [] three_hosts Map.empty (\<lambda>x. Inl (Raised ''extractor'')) default_get_count 2)
     = Some (Inl (Raised ''extractor''))"
proof -
  have plan: "submit_loop Map.empty 2 3 0 [] =
      Some [(request_params 2 0 Map.empty, 0), (request_params 2 2 Map.empty, Suc 0)]"
    by (simp add: submit_loop_plan upt_rec)
  show ?thesis
    by (simp add: batch_request_def paged_adapter_def probe_kwargs_def three_hosts_def
        page_response_def default_get_count_def plan pool_run_def completion_order_def
        future_get_def request_params_def upt_rec)
qed

text \<open>
  Claim C5, amended.  \<open>batch_request\<close> has no exception handler, and only reported
  failures are swallowed.  A probe whose success flag is false gives the empty list and
  one log line (request method with a \<open>path\<close>).  In the merge, the first window in
  submission order that is not a true response with records to extract decides the
  outcome, whatever the later windows did: a false response gives the empty list and one
  log line with the parameters of the window and the raw response (request method with
  a \<open>__name__\<close>); an exception raised by the call for that window, by \<open>get_data\<close> on
  its response, or by extending the list with records that cannot be iterated, reaches
  the caller.  So does an exception raised by the probe call, by reading the flag of
  the probe response, by \<open>get_count\<close>, or by comparing with a count that is not a
  number.
\<close>

theorem failures_and_exceptions:
  assumes page: "params ''page'' = None"
  shows
   "(call func (probe_kwargs params) = Inl e \<longrightarrow>
       batch_request sched func params get_data get_count limit =
         Some \<lparr>ret = Inl e, logs = [], calls = [probe_kwargs params]\<rparr>) \<and>
    (call func (probe_kwargs params) = Inr result \<and> subscript result ''result'' = Inl e \<longrightarrow>
       batch_request sched func params get_data get_count limit =
         Some \<lparr>ret = Inl e, logs = [], calls = [probe_kwargs params]\<rparr>) \<and>
    (call func (probe_kwargs params) = Inr result \<and> subscript result ''result'' = Inr flag \<and>
     \<not> truthy flag \<and> path func = Some api \<longrightarrow>
       batch_request sched func params get_data get_count limit =
         Some \<lparr>ret = Inr [], logs = [CountRequestError api result],
               calls = [probe_kwargs params]\<rparr>) \<and>
    (call func (probe_kwargs params) = Inr result \<and> succeeded result \<and>
     get_count result = Inl e \<longrightarrow>
       batch_request sched func params get_data get_count limit =
         Some \<lparr>ret = Inl e, logs = [], calls = [probe_kwargs params]\<rparr>) \<and>
    (call func (probe_kwargs params) = Inr result \<and> succeeded result \<and>
     get_count result = Inr c \<and> as_number c = Inl e \<longrightarrow>
       batch_request sched func params get_data get_count limit =
         Some \<lparr>ret = Inl e, logs = [], calls = [probe_kwargs params]\<rparr>) \<and>
    (call func (probe_kwargs params) = Inr result \<and> succeeded result \<and>
     get_count result = Inr c \<and> as_number c = Inr count \<and> 0 < limit \<and>
     k < nat ((count + limit - 1) div limit) \<and>
     (\<forall>i<k. \<exists>r items xs.
         call func (request_params limit (int i * limit) params) = Inr r \<and> truthy r \<and>
         get_data r = Inr items \<and> py_iter items = Inr xs) \<longrightarrow>
       (call func (request_params limit (int k * limit) params) = Inl e \<longrightarrow>
          batch_request sched func params get_data get_count limit =
            Some \<lparr>ret = Inl e, logs = [],
                  calls = probe_kwargs params #
                    map (\<lambda>j. request_params limit (int j * limit) params)
                      (completion_order sched (nat ((count + limit - 1) div limit)))\<rparr>) \<and>
       (call func (request_params limit (int k * limit) params) = Inr r \<and> \<not> truthy r \<and>
        dunder_name func = Some nm \<longrightarrow>
          batch_request sched func params get_data get_count limit =
            Some \<lparr>ret = Inr [],
                  logs = [RequestError nm (request_params limit (int k * limit) params) r],
                  calls = probe_kwargs params #
                    map (\<lambda>j. request_params limit (int j * limit) params)
                      (completion_order sched (nat ((count + limit - 1) div limit)))\<rparr>) \<and>
       (call func (request_params limit (int k * limit) params) = Inr r \<and> truthy r \<and>
        get_data r = Inl e \<longrightarrow>
          batch_request sched func params get_data get_count limit =
            Some \<lparr>ret = Inl e, logs = [],
                  calls = probe_kwargs params #
                    map (\<lambda>j. request_params limit (int j * limit) params)
                      (completion_order sched (nat ((count + limit - 1) div limit)))\<rparr>) \<and>
       (call func (request_params limit (int k * limit) params) = Inr r \<and> truthy r \<and>
        get_data r = Inr items \<and> py_iter items = Inl e \<longrightarrow>
          batch_request sched func params get_data get_count limit =
            Some \<lparr>ret = Inl e, logs = [],
                  calls = probe_kwargs params #
                    map (\<lambda>j. request_params limit (int j * limit) params)
                      (completion_order sched (nat ((count + limit - 1) div limit)))\<rparr>))"
proof -
  let ?n = "nat ((count + limit - 1) div limit)"
  let ?rp = "\<lambda>j. request_params limit (int j * limit) params"
  let ?get = "\<lambda>i. Some (call func (?rp i))"
  let ?calls = "probe_kwargs params # map ?rp (completion_order sched ?n)"
  have p1: "batch_request sched func params get_data get_count limit =
         Some \<lparr>ret = Inl e, logs = [], calls = [probe_kwargs params]\<rparr>"
    if "call func (probe_kwargs params) = Inl e"
    using that page by (simp add: batch_request_def)
  have p2: "batch_request sched func params get_data get_count limit =
         Some \<lparr>ret = Inl e, logs = [], calls = [probe_kwargs params]\<rparr>"
    if "call func (probe_kwargs params) = Inr result \<and> subscript result ''result'' = Inl e"
    using that page by (simp add: batch_request_def)
  have p3: "batch_request sched func params get_data get_count limit =
         Some \<lparr>ret = Inr [], logs = [CountRequestError api result],
               calls = [probe_kwargs params]\<rparr>"
    if "call func (probe_kwargs params) = Inr result \<and> subscript result ''result'' = Inr flag \<and>
        \<not> truthy flag \<and> path func = Some api"
    using that page by (simp add: batch_request_def)
  have p4: "batch_request sched func params get_data get_count limit =
         Some \<lparr>ret = Inl e, logs = [], calls = [probe_kwargs params]\<rparr>"
    if "call func (probe_kwargs params) = Inr result \<and> succeeded result \<and>
        get_count result = Inl e"
    using that page by (auto simp: batch_request_def succeeded_def split: sum.splits)
  have p4': "batch_request sched func params get_data get_count limit =
         Some \<lparr>ret = Inl e, logs = [], calls = [probe_kwargs params]\<rparr>"
    if "call func (probe_kwargs params) = Inr result \<and> succeeded result \<and>
        get_count result = Inr c \<and> as_number c = Inl e"
    using that page by (auto simp: batch_request_def succeeded_def split: sum.splits)
  have p5: "(call func (?rp k) = Inl e \<longrightarrow>
          batch_request sched func params get_data get_count limit =
            Some \<lparr>ret = Inl e, logs = [], calls = ?calls\<rparr>) \<and>
       (call func (?rp k) = Inr r \<and> \<not> truthy r \<and> dunder_name func = Some nm \<longrightarrow>
          batch_request sched func params get_data get_count limit =
            Some \<lparr>ret = Inr [], logs = [RequestError nm (?rp k) r], calls = ?calls\<rparr>) \<and>
       (call func (?rp k) = Inr r \<and> truthy r \<and> get_data r = Inl e \<longrightarrow>
          batch_request sched func params get_data get_count limit =
            Some \<lparr>ret = Inl e, logs = [], calls = ?calls\<rparr>) \<and>
       (call func (?rp k) = Inr r \<and> truthy r \<and> get_data r = Inr items \<and>
        py_iter items = Inl e \<longrightarrow>
          batch_request sched func params get_data get_count limit =
            Some \<lparr>ret = Inl e, logs = [], calls = ?calls\<rparr>)"
    if h: "call func (probe_kwargs params) = Inr result \<and> succeeded result \<and>
     get_count result = Inr c \<and> as_number c = Inr count \<and> 0 < limit \<and> k < ?n \<and>
     (\<forall>i<k. \<exists>r items xs. call func (?rp i) = Inr r \<and> truthy r \<and>
         get_data r = Inr items \<and> py_iter items = Inr xs)"
  proof -
    from h obtain flag where flag: "subscript result ''result'' = Inr flag" "truthy flag"
      by (auto simp: succeeded_def split: sum.splits)
    from h have limit: "0 < limit" and probe: "call func (probe_kwargs params) = Inr result"
      and cnt: "get_count result = Inr c" "as_number c = Inr count" and k: "k < ?n"
      and ok: "\<forall>i<k. \<exists>r items xs. call func (?rp i) = Inr r \<and> truthy r \<and>
         get_data r = Inr items \<and> py_iter items = Inr xs"
      by simp_all
    from batch_request_after_probe[where get_count = get_count and get_data = get_data
        and sched = sched, OF page limit probe flag cnt]
    obtain out lg where
      m: "merge_loop func get_data ?get (map (\<lambda>k. (?rp k, k)) [0..<?n]) [] = Some (out, lg)"
      and run: "batch_request sched func params get_data get_count limit =
        Some \<lparr>ret = out, logs = lg, calls = ?calls\<rparr>"
      by blast
    from merge_loop_decided[OF k, of func ?rp get_data] ok obtain ys where
      d: "merge_loop func get_data ?get (map (\<lambda>k. (?rp k, k)) [0..<?n]) [] =
          merge_loop func get_data ?get ((?rp k, k) # map (\<lambda>k. (?rp k, k)) [Suc k..<?n]) ys"
      by blast
    have a: "out = Inl e \<and> lg = []" if "call func (?rp k) = Inl e"
      using that m d by simp
    have b: "out = Inr [] \<and> lg = [RequestError nm (?rp k) r]"
      if "call func (?rp k) = Inr r \<and> \<not> truthy r \<and> dunder_name func = Some nm"
      using that m d by simp
    have c: "out = Inl e \<and> lg = []"
      if "call func (?rp k) = Inr r \<and> truthy r \<and> get_data r = Inl e"
      using that m d by simp
    have d': "out = Inl e \<and> lg = []"
      if "call func (?rp k) = Inr r \<and> truthy r \<and> get_data r = Inr items \<and>
          py_iter items = Inl e"
      using that m d by simp
    from a b c d' run show ?thesis by simp
  qed
  from p1 p2 p3 p4 p4' p5 show ?thesis by blast
qed

theorem failures_and_exceptions_witness:
  "call masked_failure (request_params 1 0 Map.empty) = Inr PNone \<and>
   call masked_failure (request_params 1 1 Map.empty) = Inl (Raised ''no such page'') \<and>
   batch_request [1, 0] masked_failure Map.empty default_get_data default_get_count 1 =
     Some \<lparr>ret = Inr [],
           logs = [RequestError ''list_biz_hosts'' (request_params 1 0 Map.empty) PNone],
           calls = [probe_kwargs Map.empty, request_params 1 1 Map.empty,
                    request_params 1 0 Map.empty]\<rparr> \<and>
   call second_page_fails (request_params 1 0 Map.empty) = Inr (page_response (PInt 2) [PStr ''h1'']) \<and>
   batch_request [] second_page_fails Map.empty default_get_data default_get_count 1 =
     Some \<lparr>ret = Inl TypeError, logs = [],
           calls = [probe_kwargs Map.empty, request_params 1 0 Map.empty,
                    request_params 1 1 Map.empty]\<rparr> \<and>
   call (paged_adapter []) (probe_kwargs Map.empty) = Inl (Raised ''no such page'') \<and>
   batch_request [] (paged_adapter []) Map.empty default_get_data default_get_count 500 =
     Some \<lparr>ret = Inl (Raised ''no such page''), logs = [], calls = [probe_kwargs Map.empty]\<rparr>"
proof -
  have page: "(Map.empty :: kwargs) ''page'' = None" by simp
  have n: "nat (((2::int) + 1 - 1) div 1) = 2" by simp
  have o1: "completion_order [Suc 0, 0] 2 = [Suc 0, 0]"
    by (simp add: completion_order_def upt_rec)
  have o2: "completion_order [] 2 = [0, Suc 0]"
    by (simp add: completion_order_def upt_rec)
  have w0: "call masked_failure (request_params 1 0 Map.empty) = Inr PNone"
    by (simp add: masked_failure_def paged_adapter_def request_params_def)
  have w1: "call masked_failure (request_params 1 1 Map.empty) = Inl (Raised ''no such page'')"
    by (simp add: masked_failure_def paged_adapter_def request_params_def)
  have m: "call masked_failure (probe_kwargs Map.empty) = Inr (page_response (PInt 2) [PStr ''h1'']) \<and>
     succeeded (page_response (PInt 2) [PStr ''h1'']) \<and>
     default_get_count (page_response (PInt 2) [PStr ''h1'']) = Inr (PInt 2) \<and>
     as_number (PInt 2) = Inr 2 \<and> (0::int) < 1 \<and> (0::nat) < nat (((2::int) + 1 - 1) div 1) \<and>
     (\<forall>i<(0::nat). \<exists>r items xs.
         call masked_failure (request_params 1 (int i * 1) Map.empty) = Inr r \<and> truthy r \<and>
         default_get_data r = Inr items \<and> py_iter items = Inr xs)"
    by (simp add: masked_failure_def paged_adapter_def probe_kwargs_def page_response_def
        succeeded_def default_get_count_def)
  have nm: "dunder_name masked_failure = Some ''list_biz_hosts''"
    by (simp add: masked_failure_def paged_adapter_def)
  have r1: "batch_request [1, 0] masked_failure Map.empty default_get_data default_get_count 1 =
     Some \<lparr>ret = Inr [],
           logs = [RequestError ''list_biz_hosts'' (request_params 1 0 Map.empty) PNone],
           calls = [probe_kwargs Map.empty, request_params 1 1 Map.empty,
                    request_params 1 0 Map.empty]\<rparr>"
    using failures_and_exceptions[OF page, where func = masked_failure
        and get_data = default_get_data and get_count = default_get_count and limit = 1
        and sched = "[1, 0]" and result = "page_response (PInt 2) [PStr ''h1'']"
        and c = "PInt 2" and count = 2 and k = 0 and r = PNone and nm = "''list_biz_hosts''"]
      m w0 nm
    by (simp add: o1)
  have s0: "call second_page_fails (request_params 1 0 Map.empty) =
      Inr (page_response (PInt 2) [PStr ''h1''])"
    by (simp add: second_page_fails_def paged_adapter_def request_params_def)
  have s1: "call second_page_fails (request_params 1 1 Map.empty) =
      Inr (PDict [(''result'', PBool False), (''message'', PStr ''request failed''),
                  (''data'', PNone)])"
    by (simp add: second_page_fails_def paged_adapter_def request_params_def)
  have s: "call second_page_fails (probe_kwargs Map.empty) = Inr (page_response (PInt 2) [PStr ''h1'']) \<and>
     succeeded (page_response (PInt 2) [PStr ''h1'']) \<and>
     default_get_count (page_response (PInt 2) [PStr ''h1'']) = Inr (PInt 2) \<and>
     as_number (PInt 2) = Inr 2 \<and> (0::int) < 1 \<and> (1::nat) < nat (((2::int) + 1 - 1) div 1) \<and>
     (\<forall>i<(1::nat). \<exists>r items xs.
         call second_page_fails (request_params 1 (int i * 1) Map.empty) = Inr r \<and> truthy r \<and>
         default_get_data r = Inr items \<and> py_iter items = Inr xs)"
    using s0
    by (simp add: second_page_fails_def paged_adapter_def probe_kwargs_def page_response_def
        succeeded_def default_get_count_def default_get_data_def)
  have e: "truthy (PDict [(''result'', PBool False), (''message'', PStr ''request failed''),
                  (''data'', PNone)]) \<and>
      default_get_data (PDict [(''result'', PBool False), (''message'', PStr ''request failed''),
                  (''data'', PNone)]) = Inl TypeError"
    by (simp add: default_get_data_def)
  have r2: "batch_request [] second_page_fails Map.empty default_get_data default_get_count 1 =
     Some \<lparr>ret = Inl TypeError, logs = [],
           calls = [probe_kwargs Map.empty, request_params 1 0 Map.empty,
                    request_params 1 1 Map.empty]\<rparr>"
    using failures_and_exceptions[OF page, where func = second_page_fails
        and get_data = default_get_data and get_count = default_get_count and limit = 1
        and sched = "[]" and result = "page_response (PInt 2) [PStr ''h1'']"
        and c = "PInt 2" and count = 2 and k = 1 and e = TypeError
        and r = "PDict [(''result'', PBool False), (''message'', PStr ''request failed''),
                  (''data'', PNone)]"]
      s s1 e
    by (simp add: o2)
  have p: "call (paged_adapter []) (probe_kwargs Map.empty) = Inl (Raised ''no such page'')"
    by (simp add: paged_adapter_def probe_kwargs_def)
  have r3: "batch_request [] (paged_adapter []) Map.empty default_get_data default_get_count 500 =
     Some \<lparr>ret = Inl (Raised ''no such page''), logs = [], calls = [probe_kwargs Map.empty]\<rparr>"
    using failures_and_exceptions[OF page, where func = "paged_adapter []"
        and e = "Raised ''no such page''" and sched = "[]" and get_data = default_get_data
        and get_count = default_get_count and limit = 500] p
    by simp
  from w0 w1 r1 s0 r2 p r3 show ?thesis by (intro conjI)
qed

section \<open>The key page of the fixed parameters\<close>

text \<open>
  Claim C8 as stated does not hold: with a key \<open>page\<close> in \<open>params\<close> no page fetch is
  issued at all, with the caller's page or any other.  The first call of the request
  method already gets the keyword \<open>page\<close> twice and raises TypeError, before the
  request method runs.
\<close>

theorem page_key_no_fetch:
  "batch_request [] three_hosts [''page'' \<mapsto> PDict [(''start'', PInt 7), (''limit'', PInt 3)]]
     default_get_data default_get_count 2 =
   Some \<lparr>ret = Inl TypeError, logs = [], calls = []\<rparr>"
  by (simp add: batch_request_def)

text \<open>
  Claim C8, amended.  With a key \<open>page\<close> in \<open>params\<close>, \<open>batch_request\<close> raises TypeError
  at its first call and calls the request method not once; the update of line 57 would
  let the caller's value replace the window, but is not reached.  Without the key, and
  after a successful probe with a positive limit, the calls of the request method are
  the probe followed by one fetch for each planned window, in the order of completion;
  each fetch carries the window \<open>{limit, start}\<close> built for it, and every other key has
  the value \<open>params\<close> gives it.
\<close>

theorem page_key_in_params:
  "(params ''page'' = Some v \<longrightarrow>
      batch_request sched func params get_data get_count limit =
        Some \<lparr>ret = Inl TypeError, logs = [], calls = []\<rparr> \<and>
      request_params limit start params ''page'' = Some v) \<and>
   (params ''page'' = None \<and> 0 < limit \<and>
    call func (probe_kwargs params) = Inr result \<and> succeeded result \<and>
    get_count result = Inr c \<and> as_number c = Inr count \<longrightarrow>
      (\<exists>run. batch_request sched func params get_data get_count limit = Some run \<and>
          calls run = probe_kwargs params #
            map (\<lambda>k. request_params limit (int k * limit) params)
              (completion_order sched (nat ((count + limit - 1) div limit)))) \<and>
      distinct (completion_order sched (nat ((count + limit - 1) div limit))) \<and>
      set (completion_order sched (nat ((count + limit - 1) div limit))) =
        {0..<nat ((count + limit - 1) div limit)} \<and>
      (\<forall>k. request_params limit (int k * limit) params ''page'' =
             Some (PDict [(''limit'', PInt limit), (''start'', PInt (int k * limit))]) \<and>
           (\<forall>key. key \<noteq> ''page'' \<longrightarrow>
              request_params limit (int k * limit) params key = params key)))"
proof -
  have with_page: "batch_request sched func params get_data get_count limit =
        Some \<lparr>ret = Inl TypeError, logs = [], calls = []\<rparr> \<and>
      request_params limit start params ''page'' = Some v"
    if "params ''page'' = Some v"
    using that by (simp add: batch_request_def request_params_def)
  have fetches: "\<exists>run. batch_request sched func params get_data get_count limit = Some run \<and>
          calls run = probe_kwargs params #
            map (\<lambda>k. request_params limit (int k * limit) params)
              (completion_order sched (nat ((count + limit - 1) div limit)))"
    if h: "params ''page'' = None \<and> 0 < limit \<and>
      call func (probe_kwargs params) = Inr result \<and> succeeded result \<and>
      get_count result = Inr c \<and> as_number c = Inr count"
  proof -
    from h obtain flag where flag: "subscript result ''result'' = Inr flag" "truthy flag"
      by (auto simp: succeeded_def split: sum.splits)
    from h have "params ''page'' = None" "0 < limit" "call func (probe_kwargs params) = Inr result"
      "get_count result = Inr c" "as_number c = Inr count"
      by simp_all
    from batch_request_after_probe[where get_count = get_count and get_data = get_data
        and sched = sched, OF this(1,2,3) flag this(4,5)]
    show ?thesis by auto
  qed
  have window: "request_params limit (int k * limit) params ''page'' =
             Some (PDict [(''limit'', PInt limit), (''start'', PInt (int k * limit))]) \<and>
           (\<forall>key. key \<noteq> ''page'' \<longrightarrow>
              request_params limit (int k * limit) params key = params key)"
    if "params ''page'' = None" for k
    using that by (simp add: request_params_def map_add_def split: option.splits)
  show ?thesis
    using with_page fetches window
    by (simp add: set_completion_order distinct_completion_order)
qed

theorem page_key_in_params_witness:
  "[''page'' \<mapsto> PDict [(''start'', PInt 7), (''limit'', PInt 3)]] ''page'' =
     Some (PDict [(''start'', PInt 7), (''limit'', PInt 3)]) \<and>
   batch_request [] three_hosts [''page'' \<mapsto> PDict [(''start'', PInt 7), (''limit'', PInt 3)]]
     default_get_data default_get_count 2 =
     Some \<lparr>ret = Inl TypeError, logs = [], calls = []\<rparr> \<and>
   (\<exists>run. batch_request [1, 0] three_hosts Map.empty default_get_data default_get_count 2 =
       Some run \<and>
     map (\<lambda>kw. kw ''page'') (calls run) =
       [Some (PDict [(''start'', PInt 0), (''limit'', PInt 1)]),
        Some (PDict [(''limit'', PInt 2), (''start'', PInt 2)]),
        Some (PDict [(''limit'', PInt 2), (''start'', PInt 0)])])"
proof -
  have a: "batch_request [] three_hosts [''page'' \<mapsto> PDict [(''start'', PInt 7), (''limit'', PInt 3)]]
     default_get_data default_get_count 2 =
     Some \<lparr>ret = Inl TypeError, logs = [], calls = []\<rparr>"
    using page_key_in_params[of "[''page'' \<mapsto> PDict [(''start'', PInt 7), (''limit'', PInt 3)]]"
          "PDict [(''start'', PInt 7), (''limit'', PInt 3)]" "[]" three_hosts default_get_data
          default_get_count 2 4]
    by simp
  have h: "(Map.empty :: kwargs) ''page'' = None \<and> (0::int) < 2 \<and>
      call three_hosts (probe_kwargs Map.empty) = Inr (page_response (PInt 3) [PStr ''h1'']) \<and>
      succeeded (page_response (PInt 3) [PStr ''h1'']) \<and>
      default_get_count (page_response (PInt 3) [PStr ''h1'']) = Inr (PInt 3) \<and>
      as_number (PInt 3) = Inr 3"
    by (simp add: three_hosts_def paged_adapter_def probe_kwargs_def page_response_def
        succeeded_def default_get_count_def)
  have n: "nat (((3::int) + 2 - 1) div 2) = 2" by simp
  have o: "completion_order [Suc 0, 0] 2 = [Suc 0, 0]"
    by (simp add: completion_order_def upt_rec)
  have b: "\<exists>run. batch_request [1, 0] three_hosts Map.empty default_get_data default_get_count 2 =
       Some run \<and>
     map (\<lambda>kw. kw ''page'') (calls run) =
       [Some (PDict [(''start'', PInt 0), (''limit'', PInt 1)]),
        Some (PDict [(''limit'', PInt 2), (''start'', PInt 2)]),
        Some (PDict [(''limit'', PInt 2), (''start'', PInt 0)])]"
    using page_key_in_params[where params = Map.empty and limit = 2 and func = three_hosts
        and result = "page_response (PInt 3) [PStr ''h1'']" and c = "PInt 3" and count = 3
        and get_count = default_get_count and get_data = default_get_data and sched = "[1, 0]"] h
    by (auto simp: n o probe_kwargs_def request_params_def)
  from a b show ?thesis by simp
qed

section \<open>The filter on the inner IP\<close>

lemma request_params_other: "k \<noteq> ''page'' \<Longrightarrow> request_params limit start params k = params k"
  by (simp add: request_params_def map_add_def split: option.splits)

lemma batch_request_calls:
  assumes run: "batch_request sched func params get_data get_count limit = Some run"
    and limit: "0 < limit"
    and kw: "kw \<in> set (calls run)"
    and k: "k \<noteq> ''page''"
  shows "kw k = params k"
proof -
  have probe: "probe_kwargs params k = params k"
    using k by (simp add: probe_kwargs_def)
  have tasks: "\<forall>t\<in>set (pool_run sched func tasks). fst (snd t) k = params k"
    if "submit_loop params limit count 0 [] = Some tasks" for count tasks
  proof -
    have "tasks = map (\<lambda>j. (request_params limit (int j * limit) params, j))
                    [0..<nat ((count + limit - 1) div limit)]"
      using that submit_loop_plan[OF limit, of params count 0 "[]"] by simp
    then have all: "\<forall>kw\<in>fst ` set tasks. kw k = params k"
      using k by (auto simp: request_params_other)
    show ?thesis
    proof
      fix t assume "t \<in> set (pool_run sched func tasks)"
      then have "fst (snd t) \<in> (\<lambda>t. fst (snd t)) ` set (pool_run sched func tasks)"
        by (rule imageI)
      then have "fst (snd t) \<in> fst ` set tasks"
        using pool_run_calls[of sched func tasks] by simp
      with all show "fst (snd t) k = params k" by blast
    qed
  qed
  show ?thesis
    using run kw probe tasks
    by (fastforce simp: batch_request_def Let_def split: if_splits sum.splits option.splits)
qed

lemma batch_request_returns:
  assumes "0 < limit"
  shows "\<exists>run. batch_request sched func params get_data get_count limit = Some run"
proof (cases "\<exists>result flag c count. params ''page'' = None \<and>
    call func (probe_kwargs params) = Inr result \<and> subscript result ''result'' = Inr flag \<and>
    truthy flag \<and> get_count result = Inr c \<and> as_number c = Inr count")
  case True
  then obtain result flag c count where "params ''page'' = None"
    "call func (probe_kwargs params) = Inr result" "subscript result ''result'' = Inr flag"
    "truthy flag" "get_count result = Inr c" "as_number c = Inr count"
    by blast
  from batch_request_after_probe[where get_count = get_count and get_data = get_data
        and sched = sched, OF this(1) assms this(2-6)]
  show ?thesis by blast
next
  case False
  then show ?thesis
    by (auto simp: batch_request_def split: sum.splits option.splits)
qed

lemma batch_request_probe_first:
  assumes "params ''page'' = None"
    and "batch_request sched func params get_data get_count limit = Some run"
  shows "\<exists>rest. calls run = probe_kwargs params # rest"
  using assms
  by (auto simp: batch_request_def Let_def split: sum.splits option.splits if_splits)

text \<open>
  Claim C10.  \<open>get_business_host_topo\<close> and \<open>get_business_host\<close> hand \<open>batch_request\<close>
  the business id, the supplier account and the fields, and the key
  \<open>host_property_filter\<close> (an AND rule, \<open>bk_host_innerip\<close> in \<open>ip_list\<close>) only when
  \<open>ip_list\<close> is true.  Each of them returns, its first call of the request method is the
  probe, and every call it makes carries these keys: the filter when \<open>ip_list\<close> is true,
  no filter key otherwise.  A false \<open>ip_list\<close>, the empty list among them, gives the run
  that \<open>None\<close> gives.
\<close>

theorem ip_list_filter:
  "(\<exists>run. get_business_host gcbu sched username bk_biz_id supplier_account host_fields ip_list
            = Some run \<and>
          calls run \<noteq> [] \<and>
          hd (calls run) ''page'' = Some (PDict [(''start'', PInt 0), (''limit'', PInt 1)]) \<and>
          (\<forall>kw\<in>set (calls run).
              kw ''bk_biz_id'' = Some bk_biz_id \<and>
              kw ''bk_supplier_account'' = Some supplier_account \<and>
              kw ''fields'' = Some (if truthy host_fields then host_fields else PList []) \<and>
              kw ''host_property_filter'' =
                (if truthy ip_list
                 then Some (PDict [(''condition'', PStr ''AND''),
                                   (''rules'', PList [PDict [(''field'', PStr ''bk_host_innerip''),
                                                             (''operator'', PStr ''in''),
                                                             (''value'', ip_list)]])])
                 else None))) \<and>
   (\<exists>run. get_business_host_topo gcbu sched username bk_biz_id supplier_account host_fields
            ip_list = Some run \<and>
          calls run \<noteq> [] \<and>
          hd (calls run) ''page'' = Some (PDict [(''start'', PInt 0), (''limit'', PInt 1)]) \<and>
          (\<forall>kw\<in>set (calls run).
              kw ''bk_biz_id'' = Some bk_biz_id \<and>
              kw ''bk_supplier_account'' = Some supplier_account \<and>
              kw ''fields'' = Some (if truthy host_fields then host_fields else PList []) \<and>
              kw ''host_property_filter'' =
                (if truthy ip_list
                 then Some (PDict [(''condition'', PStr ''AND''),
                                   (''rules'', PList [PDict [(''field'', PStr ''bk_host_innerip''),
                                                             (''operator'', PStr ''in''),
                                                             (''value'', ip_list)]])])
                 else None))) \<and>
   (\<not> truthy ip_list \<longrightarrow>
      get_business_host gcbu sched username bk_biz_id supplier_account host_fields ip_list =
        get_business_host gcbu sched username bk_biz_id supplier_account host_fields PNone \<and>
      get_business_host_topo gcbu sched username bk_biz_id supplier_account host_fields ip_list =
        get_business_host_topo gcbu sched username bk_biz_id supplier_account host_fields PNone) \<and>
   get_business_host gcbu sched username bk_biz_id supplier_account host_fields ip_list =
     batch_request sched (list_biz_hosts (gcbu username))
       (if truthy ip_list
         then [''bk_biz_id'' \<mapsto> bk_biz_id,
               ''bk_supplier_account'' \<mapsto> supplier_account,
               ''fields'' \<mapsto> (if truthy host_fields then host_fields else PList []),
               ''host_property_filter'' \<mapsto>
                 PDict [(''condition'', PStr ''AND''),
                        (''rules'', PList [PDict [(''field'', PStr ''bk_host_innerip''),
                                                  (''operator'', PStr ''in''),
                                                  (''value'', ip_list)]])]]
         else [''bk_biz_id'' \<mapsto> bk_biz_id,
               ''bk_supplier_account'' \<mapsto> supplier_account,
               ''fields'' \<mapsto> (if truthy host_fields then host_fields else PList [])])
       default_get_data default_get_count 500 \<and>
   map_option calls
     (get_business_host_topo gcbu sched username bk_biz_id supplier_account host_fields ip_list) =
     map_option calls
       (batch_request sched (list_biz_hosts_topo (gcbu username))
          (if truthy ip_list
         then [''bk_biz_id'' \<mapsto> bk_biz_id,
               ''bk_supplier_account'' \<mapsto> supplier_account,
               ''fields'' \<mapsto> (if truthy host_fields then host_fields else PList []),
               ''host_property_filter'' \<mapsto>
                 PDict [(''condition'', PStr ''AND''),
                        (''rules'', PList [PDict [(''field'', PStr ''bk_host_innerip''),
                                                  (''operator'', PStr ''in''),
                                                  (''value'', ip_list)]])]]
         else [''bk_biz_id'' \<mapsto> bk_biz_id,
               ''bk_supplier_account'' \<mapsto> supplier_account,
               ''fields'' \<mapsto> (if truthy host_fields then host_fields else PList [])])
          default_get_data default_get_count 500)"
proof -
  let ?kwargs = "host_kwargs bk_biz_id supplier_account host_fields ip_list"
  let ?filter = "if truthy ip_list
                 then Some (PDict [(''condition'', PStr ''AND''),
                                   (''rules'', PList [PDict [(''field'', PStr ''bk_host_innerip''),
                                                             (''operator'', PStr ''in''),
                                                             (''value'', ip_list)]])])
                 else None"
  have nopage: "?kwargs ''page'' = None"
    by (simp add: host_kwargs_def Let_def)
  have keys: "?kwargs ''bk_biz_id'' = Some bk_biz_id"
    "?kwargs ''bk_supplier_account'' = Some supplier_account"
    "?kwargs ''fields'' = Some (if truthy host_fields then host_fields else PList [])"
    "?kwargs ''host_property_filter'' = ?filter"
    by (simp_all add: host_kwargs_def Let_def)
  have run: "calls run \<noteq> [] \<and>
          hd (calls run) ''page'' = Some (PDict [(''start'', PInt 0), (''limit'', PInt 1)]) \<and>
          (\<forall>kw\<in>set (calls run).
              kw ''bk_biz_id'' = Some bk_biz_id \<and>
              kw ''bk_supplier_account'' = Some supplier_account \<and>
              kw ''fields'' = Some (if truthy host_fields then host_fields else PList []) \<and>
              kw ''host_property_filter'' = ?filter)"
    if r: "batch_request sched func ?kwargs default_get_data default_get_count 500 = Some run"
    for func run
  proof -
    from batch_request_probe_first[OF nopage r] obtain rest where
      "calls run = probe_kwargs ?kwargs # rest" by blast
    then have first: "calls run \<noteq> []"
      "hd (calls run) ''page'' = Some (PDict [(''start'', PInt 0), (''limit'', PInt 1)])"
      by (simp_all add: probe_kwargs_def)
    have e: "kw k = ?kwargs k" if "kw \<in> set (calls run)" "k \<noteq> ''page''" for kw k
      using batch_request_calls[OF r _ that] by simp
    have "\<forall>kw\<in>set (calls run).
              kw ''bk_biz_id'' = Some bk_biz_id \<and>
              kw ''bk_supplier_account'' = Some supplier_account \<and>
              kw ''fields'' = Some (if truthy host_fields then host_fields else PList []) \<and>
              kw ''host_property_filter'' = ?filter"
    proof
      fix kw assume kw: "kw \<in> set (calls run)"
      have k1: "kw ''bk_biz_id'' = Some bk_biz_id"
        using e[OF kw, of "''bk_biz_id''"] keys(1) by simp
      have k2: "kw ''bk_supplier_account'' = Some supplier_account"
        using e[OF kw, of "''bk_supplier_account''"] keys(2) by simp
      have k3: "kw ''fields'' = Some (if truthy host_fields then host_fields else PList [])"
        using e[OF kw, of "''fields''"] keys(3) by simp
      have k4: "kw ''host_property_filter'' = ?filter"
        using e[OF kw, of "''host_property_filter''"] keys(4) by simp
      from k1 k2 k3 k4 show "kw ''bk_biz_id'' = Some bk_biz_id \<and>
              kw ''bk_supplier_account'' = Some supplier_account \<and>
              kw ''fields'' = Some (if truthy host_fields then host_fields else PList []) \<and>
              kw ''host_property_filter'' = ?filter"
        by (intro conjI)
    qed
    with first show ?thesis by blast
  qed
  obtain run1 where r1: "batch_request sched (list_biz_hosts (gcbu username)) ?kwargs
      default_get_data default_get_count 500 = Some run1"
    using batch_request_returns[of 500] by fastforce
  have host: "get_business_host gcbu sched username bk_biz_id supplier_account host_fields ip_list
            = Some run1"
    using r1 by (simp add: get_business_host_def)
  obtain run2 where r2: "batch_request sched (list_biz_hosts_topo (gcbu username)) ?kwargs
      default_get_data default_get_count 500 = Some run2"
    using batch_request_returns[of 500] by fastforce
  have "\<exists>run3. get_business_host_topo gcbu sched username bk_biz_id supplier_account
      host_fields ip_list = Some run3 \<and> calls run3 = calls run2"
    using r2 by (cases "ret run2") (simp_all add: get_business_host_topo_def)
  then obtain run3 where topo: "get_business_host_topo gcbu sched username bk_biz_id
      supplier_account host_fields ip_list = Some run3" and c3: "calls run3 = calls run2"
    by blast
  have same: "host_kwargs bk_biz_id supplier_account host_fields ip_list =
        host_kwargs bk_biz_id supplier_account host_fields PNone"
    if "\<not> truthy ip_list"
    using that by (simp add: host_kwargs_def)
  have A: "\<exists>run. get_business_host gcbu sched username bk_biz_id supplier_account host_fields
            ip_list = Some run \<and>
          calls run \<noteq> [] \<and>
          hd (calls run) ''page'' = Some (PDict [(''start'', PInt 0), (''limit'', PInt 1)]) \<and>
          (\<forall>kw\<in>set (calls run).
              kw ''bk_biz_id'' = Some bk_biz_id \<and>
              kw ''bk_supplier_account'' = Some supplier_account \<and>
              kw ''fields'' = Some (if truthy host_fields then host_fields else PList []) \<and>
              kw ''host_property_filter'' = ?filter)"
    using host run[OF r1] by blast
  have B: "\<exists>run. get_business_host_topo gcbu sched username bk_biz_id supplier_account
            host_fields ip_list = Some run \<and>
          calls run \<noteq> [] \<and>
          hd (calls run) ''page'' = Some (PDict [(''start'', PInt 0), (''limit'', PInt 1)]) \<and>
          (\<forall>kw\<in>set (calls run).
              kw ''bk_biz_id'' = Some bk_biz_id \<and>
              kw ''bk_supplier_account'' = Some supplier_account \<and>
              kw ''fields'' = Some (if truthy host_fields then host_fields else PList []) \<and>
              kw ''host_property_filter'' = ?filter)"
    using topo run[OF r2] c3 by (intro exI[of _ run3]) simp
  have C: "\<not> truthy ip_list \<longrightarrow>
      get_business_host gcbu sched username bk_biz_id supplier_account host_fields ip_list =
        get_business_host gcbu sched username bk_biz_id supplier_account host_fields PNone \<and>
      get_business_host_topo gcbu sched username bk_biz_id supplier_account host_fields ip_list =
        get_business_host_topo gcbu sched username bk_biz_id supplier_account host_fields PNone"
    using same by (simp add: get_business_host_def get_business_host_topo_def)
  have K: "host_kwargs bk_biz_id supplier_account host_fields ip_list =
       (if truthy ip_list
         then [''bk_biz_id'' \<mapsto> bk_biz_id,
               ''bk_supplier_account'' \<mapsto> supplier_account,
               ''fields'' \<mapsto> (if truthy host_fields then host_fields else PList []),
               ''host_property_filter'' \<mapsto>
                 PDict [(''condition'', PStr ''AND''),
                        (''rules'', PList [PDict [(''field'', PStr ''bk_host_innerip''),
                                                  (''operator'', PStr ''in''),
                                                  (''value'', ip_list)]])]]
         else [''bk_biz_id'' \<mapsto> bk_biz_id,
               ''bk_supplier_account'' \<mapsto> supplier_account,
               ''fields'' \<mapsto> (if truthy host_fields then host_fields else PList [])])"
    by (simp add: host_kwargs_def Let_def)
  have D: "get_business_host gcbu sched username bk_biz_id supplier_account host_fields ip_list =
     batch_request sched (list_biz_hosts (gcbu username))
       (if truthy ip_list
         then [''bk_biz_id'' \<mapsto> bk_biz_id,
               ''bk_supplier_account'' \<mapsto> supplier_account,
               ''fields'' \<mapsto> (if truthy host_fields then host_fields else PList []),
               ''host_property_filter'' \<mapsto>
                 PDict [(''condition'', PStr ''AND''),
                        (''rules'', PList [PDict [(''field'', PStr ''bk_host_innerip''),
                                                  (''operator'', PStr ''in''),
                                                  (''value'', ip_list)]])]]
         else [''bk_biz_id'' \<mapsto> bk_biz_id,
               ''bk_supplier_account'' \<mapsto> supplier_account,
               ''fields'' \<mapsto> (if truthy host_fields then host_fields else PList [])])
       default_get_data default_get_count 500"
    unfolding get_business_host_def K ..
  have "map_option calls
     (get_business_host_topo gcbu sched username bk_biz_id supplier_account host_fields ip_list) =
     map_option calls
       (batch_request sched (list_biz_hosts_topo (gcbu username)) ?kwargs
          default_get_data default_get_count 500)"
    using topo r2 c3 by simp
  then have E: "map_option calls
     (get_business_host_topo gcbu sched username bk_biz_id supplier_account host_fields ip_list) =
     map_option calls
       (batch_request sched (list_biz_hosts_topo (gcbu username))
          (if truthy ip_list
         then [''bk_biz_id'' \<mapsto> bk_biz_id,
               ''bk_supplier_account'' \<mapsto> supplier_account,
               ''fields'' \<mapsto> (if truthy host_fields then host_fields else PList []),
               ''host_property_filter'' \<mapsto>
                 PDict [(''condition'', PStr ''AND''),
                        (''rules'', PList [PDict [(''field'', PStr ''bk_host_innerip''),
                                                  (''operator'', PStr ''in''),
                                                  (''value'', ip_list)]])]]
         else [''bk_biz_id'' \<mapsto> bk_biz_id,
               ''bk_supplier_account'' \<mapsto> supplier_account,
               ''fields'' \<mapsto> (if truthy host_fields then host_fields else PList [])])
          default_get_data default_get_count 500)"
    unfolding K .
  from A B C D E show ?thesis by (intro conjI)
qed

theorem ip_list_filter_witness:
  "(\<exists>run. get_business_host (\<lambda>username. example_client) [] ''admin'' (PInt 2) (PInt 0)
            (PList [PStr ''bk_host_id'']) (PList []) = Some run \<and>
          calls run \<noteq> [] \<and> hd (calls run) ''host_property_filter'' = None \<and>
          hd (calls run) ''bk_biz_id'' = Some (PInt 2)) \<and>
   (\<exists>run. get_business_host_topo (\<lambda>username. example_client) [] ''admin'' (PInt 2) (PInt 0)
            (PList [PStr ''bk_host_id'']) (PList [PStr ''10.0.0.1'']) = Some run \<and>
          calls run \<noteq> [] \<and>
          hd (calls run) ''host_property_filter'' =
            Some (PDict [(''condition'', PStr ''AND''),
                         (''rules'', PList [PDict [(''field'', PStr ''bk_host_innerip''),
                                                   (''operator'', PStr ''in''),
                                                   (''value'', PList [PStr ''10.0.0.1''])]])])) \<and>
   \<not> truthy (PList []) \<and>
   get_business_host (\<lambda>username. example_client) [] ''admin'' (PInt 2) (PInt 0)
       (PList [PStr ''bk_host_id'']) (PList []) =
     get_business_host (\<lambda>username. example_client) [] ''admin'' (PInt 2) (PInt 0)
       (PList [PStr ''bk_host_id'']) PNone"
proof -
  have hd_in: "xs \<noteq> [] \<Longrightarrow> hd xs \<in> set xs" for xs :: "kwargs list"
    by simp
  have a: "\<exists>run. get_business_host (\<lambda>username. example_client) [] ''admin'' (PInt 2) (PInt 0)
            (PList [PStr ''bk_host_id'']) (PList []) = Some run \<and>
          calls run \<noteq> [] \<and> hd (calls run) ''host_property_filter'' = None \<and>
          hd (calls run) ''bk_biz_id'' = Some (PInt 2)"
    using ip_list_filter[of "\<lambda>username. example_client" "[]" "''admin''" "PInt 2" "PInt 0"
          "PList [PStr ''bk_host_id'']" "PList []"] hd_in
    by fastforce
  have b: "\<exists>run. get_business_host_topo (\<lambda>username. example_client) [] ''admin'' (PInt 2) (PInt 0)
            (PList [PStr ''bk_host_id'']) (PList [PStr ''10.0.0.1'']) = Some run \<and>
          calls run \<noteq> [] \<and>
          hd (calls run) ''host_property_filter'' =
            Some (PDict [(''condition'', PStr ''AND''),
                         (''rules'', PList [PDict [(''field'', PStr ''bk_host_innerip''),
                                                   (''operator'', PStr ''in''),
                                                   (''value'', PList [PStr ''10.0.0.1''])]])])"
    using ip_list_filter[of "\<lambda>username. example_client" "[]" "''admin''" "PInt 2" "PInt 0"
          "PList [PStr ''bk_host_id'']" "PList [PStr ''10.0.0.1'']"] hd_in
    by fastforce
  have c: "\<not> truthy (PList []) \<and>
   get_business_host (\<lambda>username. example_client) [] ''admin'' (PInt 2) (PInt 0)
       (PList [PStr ''bk_host_id'']) (PList []) =
     get_business_host (\<lambda>username. example_client) [] ''admin'' (PInt 2) (PInt 0)
       (PList [PStr ''bk_host_id'']) PNone"
    using ip_list_filter[of "\<lambda>username. example_client" "[]" "''admin''" "PInt 2" "PInt 0"
          "PList [PStr ''bk_host_id'']" "PList []"]
    by simp
  from a b c show ?thesis by (intro conjI) simp_all
qed

section \<open>The receivers of a group\<close>

lemma extend_groups_all:
  assumes "\<forall>g\<in>set groups. \<exists>role. CC_V2_ROLE_MAP ev g = Some role \<and>
             subscript biz_data role = Inr (PStr (members g))"
  shows "extend_groups ev biz_data groups receivers =
           Inr (receivers @ concat (map (\<lambda>g. py_split (members g)) groups))"
  using assms by (induction groups arbitrary: receivers) auto

text \<open>
  Claim C7.  With a non-empty \<open>receiver_group\<close> and a business search that succeeds
  with exactly one business, the data returned by \<open>get_notify_receivers\<close> is the
  comma-join of a sorted list without duplicates, whose elements are the members of the
  role fields of the requested groups together with, when \<open>more_receiver\<close> is not empty,
  its stripped names.
\<close>

theorem receivers_sorted_distinct:
  assumes grp: "group_truthy receiver_group"
    and search: "search_business cl
             (PDict [(''bk_supplier_account'', supplier_account),
                     (''condition'', PDict [(''bk_biz_id'', PInt biz_cc_id)])]) = Inr cc_result"
    and ok: "subscript cc_result ''result'' = Inr flag" "truthy flag"
    and one: "subscript cc_result ''data'' = Inr d" "subscript d ''count'' = Inr (PInt 1)"
    and biz: "subscript d ''info'' = Inr info" "index0 info = Inr biz_data"
    and roles: "\<forall>g\<in>set (group_names receiver_group).
             \<exists>role. CC_V2_ROLE_MAP ev g = Some role \<and>
                    subscript biz_data role = Inr (PStr (members g))"
  shows "\<exists>names.
           returned (get_notify_receivers ev cl biz_cc_id supplier_account receiver_group
                       more_receiver logger) =
             Inr (PDict [(''result'', PBool True), (''message'', PStr ''success''),
                         (''data'', PStr (join_comma names))]) \<and>
           sorted names \<and> distinct names \<and>
           set names =
             (\<Union>g\<in>set (group_names receiver_group). set (py_split (members g))) \<union>
             (if more_receiver \<noteq> [] then set (map strip (py_split more_receiver)) else {})"
proof -
  let ?receivers = "concat (map (\<lambda>g. py_split (members g)) (group_names receiver_group))"
  let ?all = "if more_receiver \<noteq> [] then ?receivers @ map strip (py_split more_receiver)
              else ?receivers"
  have ext: "extend_groups ev biz_data (group_names receiver_group) [] = Inr ?receivers"
    using extend_groups_all[OF roles, of "[]"] by simp
  have ret: "returned (get_notify_receivers ev cl biz_cc_id supplier_account receiver_group
                       more_receiver logger) =
             Inr (PDict [(''result'', PBool True), (''message'', PStr ''success''),
                         (''data'', PStr (join_comma (sort (remdups ?all))))])"
    using grp search ok one biz ext by (simp add: get_notify_receivers_def Let_def)
  have "sorted (sort (remdups ?all))" by simp
  moreover have "distinct (sort (remdups ?all))" by simp
  moreover have "set (sort (remdups ?all)) =
             (\<Union>g\<in>set (group_names receiver_group). set (py_split (members g))) \<union>
             (if more_receiver \<noteq> [] then set (map strip (py_split more_receiver)) else {})"
    by auto
  ultimately show ?thesis using ret by blast
qed

theorem receivers_sorted_distinct_witness:
  "(\<exists>names.
      returned (get_notify_receivers example_env example_client 2 (PInt 0)
                  (GroupStr ''Maintainers,ProductPm'') '' dave ,bob'' None) =
        Inr (PDict [(''result'', PBool True), (''message'', PStr ''success''),
                    (''data'', PStr (join_comma names))]) \<and>
      sorted names \<and> distinct names \<and>
      set names = {''alice'', ''bob'', ''carol'', ''dave''}) \<and>
   returned (get_notify_receivers example_env example_client 2 (PInt 0)
               (GroupStr ''Maintainers,ProductPm'') '' dave ,bob'' None) =
     Inr (PDict [(''result'', PBool True), (''message'', PStr ''success''),
                 (''data'', PStr ''alice,bob,carol,dave'')])"
proof -
  define members where
    "members = (\<lambda>g. if g = ''Maintainers'' then ''carol,alice'' else ''bob,alice'')"
  let ?cc = "PDict [(''result'', PBool True),
                    (''data'',
                     PDict [(''count'', PInt 1),
                            (''info'',
                             PList [PDict [(''bk_biz_maintainer'', PStr ''carol,alice''),
                                           (''bk_biz_productor'', PStr ''bob,alice'')]])])]"
  let ?d = "PDict [(''count'', PInt 1),
                   (''info'',
                    PList [PDict [(''bk_biz_maintainer'', PStr ''carol,alice''),
                                  (''bk_biz_productor'', PStr ''bob,alice'')]])]"
  let ?biz = "PDict [(''bk_biz_maintainer'', PStr ''carol,alice''),
                     (''bk_biz_productor'', PStr ''bob,alice'')]"
  have g: "group_names (GroupStr ''Maintainers,ProductPm'') = [''Maintainers'', ''ProductPm'']"
    by simp
  have h1: "group_truthy (GroupStr ''Maintainers,ProductPm'')" by simp
  have h2: "search_business example_client
             (PDict [(''bk_supplier_account'', PInt 0),
                     (''condition'', PDict [(''bk_biz_id'', PInt 2)])]) = Inr ?cc"
    by (simp add: example_client_def)
  have h3: "subscript ?cc ''result'' = Inr (PBool True)" by simp
  have h4: "truthy (PBool True)" by simp
  have h5: "subscript ?cc ''data'' = Inr ?d" by simp
  have h6: "subscript ?d ''count'' = Inr (PInt 1)" by simp
  have h7: "subscript ?d ''info'' = Inr (PList [?biz])" by simp
  have h8: "index0 (PList [?biz]) = Inr ?biz" by simp
  have h9: "\<forall>g\<in>set (group_names (GroupStr ''Maintainers,ProductPm'')).
             \<exists>role. CC_V2_ROLE_MAP example_env g = Some role \<and>
                    subscript ?biz role = Inr (PStr (members g))"
    by (simp add: g example_env_def members_def)
  have s1: "py_split ''carol,alice'' = [''carol'', ''alice'']" by simp
  have s2: "py_split ''bob,alice'' = [''bob'', ''alice'']" by simp
  have s3: "map strip (py_split '' dave ,bob'') = [''dave'', ''bob'']"
    by (simp add: strip_def is_space_def)
  from receivers_sorted_distinct[where members = members and more_receiver = "'' dave ,bob''"
        and logger = None, OF h1 h2 h3 h4 h5 h6 h7 h8 h9]
  obtain names where
    n: "returned (get_notify_receivers example_env example_client 2 (PInt 0)
                  (GroupStr ''Maintainers,ProductPm'') '' dave ,bob'' None) =
        Inr (PDict [(''result'', PBool True), (''message'', PStr ''success''),
                    (''data'', PStr (join_comma names))])"
      "sorted names" "distinct names"
    and st: "set names =
        (\<Union>g\<in>set (group_names (GroupStr ''Maintainers,ProductPm'')). set (py_split (members g))) \<union>
        (if '' dave ,bob'' \<noteq> [] then set (map strip (py_split '' dave ,bob'')) else {})"
    by blast
  have u: "(\<Union>g\<in>set (group_names (GroupStr ''Maintainers,ProductPm'')). set (py_split (members g))) =
      {''carol'', ''alice'', ''bob''}"
    unfolding g by (simp add: members_def s1 s2 insert_commute)
  have m: "(if '' dave ,bob'' \<noteq> [] then set (map strip (py_split '' dave ,bob'')) else {}) =
      {''dave'', ''bob''}"
    unfolding s3 by simp
  have set_names: "set names = {''alice'', ''bob'', ''carol'', ''dave''}"
    unfolding st u m by auto
  have "sorted [''alice'', ''bob'', ''carol'', ''dave'']" by code_simp
  moreover have "distinct [''alice'', ''bob'', ''carol'', ''dave'']" by simp
  ultimately have "names = [''alice'', ''bob'', ''carol'', ''dave'']"
    using n(2,3) set_names by (intro sorted_distinct_set_unique) simp_all
  then have j: "join_comma names = ''alice,bob,carol,dave''" by simp
  have e: "\<exists>names.
      returned (get_notify_receivers example_env example_client 2 (PInt 0)
                  (GroupStr ''Maintainers,ProductPm'') '' dave ,bob'' None) =
        Inr (PDict [(''result'', PBool True), (''message'', PStr ''success''),
                    (''data'', PStr (join_comma names))]) \<and>
      sorted names \<and> distinct names \<and>
      set names = {''alice'', ''bob'', ''carol'', ''dave''}"
    using n set_names by blast
  have r: "returned (get_notify_receivers example_env example_client 2 (PInt 0)
               (GroupStr ''Maintainers,ProductPm'') '' dave ,bob'' None) =
     Inr (PDict [(''result'', PBool True), (''message'', PStr ''success''),
                 (''data'', PStr ''alice,bob,carol,dave'')])"
    using n(1) by (simp only: j)
  from e r show ?thesis by (rule conjI)
qed

end
